theory Spec2Isabelle
  imports Main "HOL-Library.Sublist" "HOL-Library.AList"
begin

section \<open>The O3DE material generator (cli/o3de\_material\_generator.py)\<close>

text \<open>
  The script parses its command line with \<open>getopt\<close>, optionally renames the texture
  files of one material from an input base name to an output base name, and writes a
  JSON material document that references the textures found on disk.

  The embedding is for a POSIX host: \<open>os.path.join\<close> is \<open>posixpath.join\<close> and
  \<open>os.rename\<close> silently replaces an existing destination.  The file system is a
  finite map from path strings to file contents.  Path strings are not resolved:
  there are no links, and two different strings are two different entries.  On a
  host this is exact for two names of one directory that differ in their last
  component; strings such as \<open>./a\<close> and \<open>a\<close>, which a host resolves to one entry, are
  kept apart by the map.  For this reason a property below concludes that a renamed
  file has left its old name only for two names of one directory.  Faults of the
  operating system (missing directories, permissions, a full disk) are outside the
  model.  Standard output is the list of the strings handed to \<open>print\<close>, in order.
\<close>

subsection \<open>Data model\<close>

record BuildConfig =
  export_occ :: bool
  export_cav :: bool
  export_dif :: bool
  export_dis :: bool
  export_emi :: bool
  export_met :: bool
  export_ddn :: bool
  export_rou :: bool
  input_file_name :: string
  output_file_name :: string
  textures_dir_path :: string
  assets_root_path :: string

text \<open>
  The class attributes of \<open>BuildConfig\<close> are the defaults of a fresh instance;
  \<open>textures_dir_path\<close> defaults to \<open>os.getcwd()\<close>, a parameter here.
\<close>

definition new_BuildConfig :: "string \<Rightarrow> BuildConfig" where
  "new_BuildConfig cwd =
     \<lparr>export_occ = False, export_cav = False, export_dif = False, export_dis = False,
      export_emi = False, export_met = False, export_ddn = False, export_rou = False,
      input_file_name = '''', output_file_name = '''',
      textures_dir_path = cwd, assets_root_path = ''Assets''\<rparr>"

text \<open>The material dictionary; \<open>propertyValues\<close> keeps Python's insertion order.\<close>

record material =
  materialType :: string
  materialTypeVersion :: int
  propertyValues :: "(string \<times> string) list"

text \<open>
  A file is either some texture (an opaque blob) or a material document as
  \<open>json.dump\<close> wrote it.
\<close>

datatype content = Blob nat | Json material

type_synonym filesystem = "string \<rightharpoonup> content"

text \<open>The observable outcome of one run of the script.\<close>

record run =
  exit_code :: nat
  files :: filesystem
  printed :: "string list"

subsection \<open>Library functions used by the script\<close>

text \<open>\<open>posixpath.join\<close> with two arguments.\<close>

definition os_path_join :: "string \<Rightarrow> string \<Rightarrow> string" where
  "os_path_join a b =
     (if prefix ''/'' b then b
      else if a = [] \<or> suffix ''/'' a then a @ b
      else a @ ''/'' @ b)"

definition os_path_exists :: "filesystem \<Rightarrow> string \<Rightarrow> bool" where
  "os_path_exists fs p = (fs p \<noteq> None)"

text \<open>
  \<open>os.rename\<close>; the script calls it only on a source that \<open>os.path.exists\<close> has just
  found, and renaming a path to itself changes nothing.  Source and destination are
  the same entry when they are the same string.
\<close>

definition os_rename :: "string \<Rightarrow> string \<Rightarrow> filesystem \<Rightarrow> filesystem" where
  "os_rename src dst fs = (fs(src := None))(dst := fs src)"

text \<open>\<open>s.replace(old, new)\<close> for one-character strings.\<close>

definition str_replace :: "char \<Rightarrow> char \<Rightarrow> string \<Rightarrow> string" where
  "str_replace old new s = map (\<lambda>c. if c = old then new else c) s"

subsubsection \<open>getopt.getopt\<close>

datatype GetoptError = GetoptError string string

type_synonym opts = "(string \<times> string) list"

fun short_has_arg :: "char \<Rightarrow> string \<Rightarrow> GetoptError + bool" where
  "short_has_arg opt [] = Inl (GetoptError ''option -%s not recognized'' [opt])"
| "short_has_arg opt (c # cs) =
     (if opt = c \<and> c \<noteq> CHR '':'' then Inr (prefix '':'' cs)
      else short_has_arg opt cs)"

fun do_shorts :: "opts \<Rightarrow> string \<Rightarrow> string \<Rightarrow> string list \<Rightarrow> GetoptError + (opts \<times> string list)" where
  "do_shorts opts [] shortopts args = Inr (opts, args)"
| "do_shorts opts (opt # optstring) shortopts args =
     (case short_has_arg opt shortopts of
        Inl e \<Rightarrow> Inl e
      | Inr True \<Rightarrow>
          (if optstring = [] then
             (case args of
                [] \<Rightarrow> Inl (GetoptError ''option -%s requires argument'' [opt])
              | a # args' \<Rightarrow> Inr (opts @ [(''-'' @ [opt], a)], args'))
           else Inr (opts @ [(''-'' @ [opt], optstring)], args))
      | Inr False \<Rightarrow> do_shorts (opts @ [(''-'' @ [opt], '''')]) optstring shortopts args)"

definition long_has_args :: "string \<Rightarrow> string list \<Rightarrow> GetoptError + (bool \<times> string)" where
  "long_has_args opt longopts =
     (let possibilities = filter (\<lambda>cand. prefix opt cand) longopts in
      if possibilities = [] then Inl (GetoptError ''option --%s not recognized'' opt)
      else if opt \<in> set possibilities then Inr (False, opt)
      else if opt @ ''='' \<in> set possibilities then Inr (True, opt)
      else if length possibilities > 1 then Inl (GetoptError ''option --%s not a unique prefix'' opt)
      else
        (let unique_match = hd possibilities;
             has_arg = suffix ''='' unique_match
         in Inr (has_arg, if has_arg then butlast unique_match else unique_match)))"

definition do_longs :: "opts \<Rightarrow> string \<Rightarrow> string list \<Rightarrow> string list \<Rightarrow> GetoptError + (opts \<times> string list)" where
  "do_longs opts opt0 longopts args =
     (let (opt, optarg) =
            (if CHR ''='' \<in> set opt0
             then (takeWhile (\<lambda>c. c \<noteq> CHR ''='') opt0,
                   Some (tl (dropWhile (\<lambda>c. c \<noteq> CHR ''='') opt0)))
             else (opt0, None))
      in case long_has_args opt longopts of
           Inl e \<Rightarrow> Inl e
         | Inr (has_arg, opt') \<Rightarrow>
             (if has_arg then
                (case optarg of
                   None \<Rightarrow>
                     (case args of
                        [] \<Rightarrow> Inl (GetoptError ''option --%s requires argument'' opt')
                      | a # args' \<Rightarrow> Inr (opts @ [(''--'' @ opt', a)], args'))
                 | Some v \<Rightarrow> Inr (opts @ [(''--'' @ opt', v)], args))
              else
                (case optarg of
                   Some v \<Rightarrow> Inl (GetoptError ''option --%s must not have an argument'' opt')
                 | None \<Rightarrow> Inr (opts @ [(''--'' @ opt', '''')], args))))"

lemma do_shorts_length:
  "do_shorts opts s shortopts args = Inr (opts', args') \<Longrightarrow> length args' \<le> length args"
  by (induction opts s shortopts args rule: do_shorts.induct)
     (auto split: sum.splits bool.splits if_splits list.splits)

lemma do_longs_length:
  "do_longs opts s longopts args = Inr (opts', args') \<Longrightarrow> length args' \<le> length args"
  by (auto simp: do_longs_def Let_def split: sum.splits prod.splits if_splits option.splits list.splits)

function getopt_loop :: "opts \<Rightarrow> string list \<Rightarrow> string \<Rightarrow> string list \<Rightarrow> GetoptError + (opts \<times> string list)" where
  "getopt_loop opts [] shortopts longopts = Inr (opts, [])"
| "getopt_loop opts (a # args) shortopts longopts =
     (if prefix ''-'' a \<and> a \<noteq> ''-'' then
        (if a = ''--'' then Inr (opts, args)
         else if prefix ''--'' a then
           (case do_longs opts (drop 2 a) longopts args of
              Inl e \<Rightarrow> Inl e
            | Inr (opts', args') \<Rightarrow> getopt_loop opts' args' shortopts longopts)
         else
           (case do_shorts opts (drop 1 a) shortopts args of
              Inl e \<Rightarrow> Inl e
            | Inr (opts', args') \<Rightarrow> getopt_loop opts' args' shortopts longopts))
      else Inr (opts, a # args))"
  by pat_completeness auto
termination
proof (relation "measure (\<lambda>(opts, args, shortopts, longopts). length args)", goal_cases)
  case 1
  show ?case by simp
next
  case (2 opts a args shortopts longopts x2 y z)
  then show ?case using do_longs_length[of opts "drop 2 a" longopts args y z] by simp
next
  case (3 opts a args shortopts longopts x2 y z)
  then show ?case using do_shorts_length[of opts "drop 1 a" shortopts args y z] by simp
qed

definition getopt :: "string list \<Rightarrow> string \<Rightarrow> string list \<Rightarrow> GetoptError + (opts \<times> string list)" where
  "getopt args shortopts longopts = getopt_loop [] args shortopts longopts"

subsection \<open>Option processing (\<open>main\<close>, \<open>setup_default\<close>, \<open>setup_all\<close>)\<close>

definition setup_default :: "BuildConfig \<Rightarrow> BuildConfig" where
  "setup_default config =
     config\<lparr>export_dif := True, export_ddn := True, export_occ := True,
            export_met := True, export_rou := True\<rparr>"

definition setup_all :: "BuildConfig \<Rightarrow> BuildConfig" where
  "setup_all config =
     (setup_default config)\<lparr>export_emi := True, export_cav := True, export_dis := True\<rparr>"

text \<open>
  \<open>help(no_logo)\<close> and \<open>error()\<close> only print; the value is the list of printed
  strings.
\<close>

definition print_help :: "bool \<Rightarrow> string list" where
  "print_help no_logo = (if \<not> no_logo then [''O3DE Material Generator for''] else [])"

definition print_error :: "string list" where
  "print_error = [''Invalid arguments passed to the script.\<newline>''] @ print_help True"

text \<open>
  One pass of the \<open>for opt, arg in opts\<close> loop of \<open>main\<close>: the \<open>if\<close>/\<open>elif\<close> chain
  in the order of the source.  \<open>None\<close> is the \<open>-h\<close> branch, which prints the help
  and leaves the program.
\<close>

definition handle_opt :: "string \<times> string \<Rightarrow> BuildConfig \<times> bool \<Rightarrow> (BuildConfig \<times> bool) option" where
  "handle_opt oa cv =
     (case (oa, cv) of ((opt, arg), (config, verbose)) \<Rightarrow>
        if opt = ''-h'' then None
        else if opt = ''-v'' then Some (config, True)
        else if opt = ''-f'' then Some (config\<lparr>input_file_name := arg\<rparr>, verbose)
        else if opt = ''-o'' then Some (config\<lparr>output_file_name := arg\<rparr>, verbose)
        else if opt = ''-d'' then Some (config\<lparr>textures_dir_path := arg\<rparr>, verbose)
        else if opt = ''-a'' then Some (config\<lparr>assets_root_path := arg\<rparr>, verbose)
        else if opt = ''--occ'' then Some (config\<lparr>export_occ := True\<rparr>, verbose)
        else if opt = ''--cav'' then Some (config\<lparr>export_cav := True\<rparr>, verbose)
        else if opt = ''--dif'' then Some (config\<lparr>export_dif := True\<rparr>, verbose)
        else if opt = ''--dis'' then Some (config\<lparr>export_dis := True\<rparr>, verbose)
        else if opt = ''--emi'' then Some (config\<lparr>export_emi := True\<rparr>, verbose)
        else if opt = ''--met'' then Some (config\<lparr>export_met := True\<rparr>, verbose)
        else if opt = ''--ddn'' then Some (config\<lparr>export_ddn := True\<rparr>, verbose)
        else if opt = ''--rou'' then Some (config\<lparr>export_rou := True\<rparr>, verbose)
        else if opt = ''--default'' then Some (setup_default config, verbose)
        else if opt = ''--all'' then Some (setup_all config, verbose)
        else Some (config, verbose))"

fun handle_opts :: "opts \<Rightarrow> BuildConfig \<times> bool \<Rightarrow> (BuildConfig \<times> bool) option" where
  "handle_opts [] cv = Some cv"
| "handle_opts (oa # rest) cv =
     (case handle_opt oa cv of None \<Rightarrow> None | Some cv' \<Rightarrow> handle_opts rest cv')"

subsection \<open>Building the material (\<open>build\<close>)\<close>

type_synonym map_entry = "string \<times> string \<times> string \<times> bool"

definition maps_table :: "BuildConfig \<Rightarrow> map_entry list" where
  "maps_table config =
     [(''Ambient Occlusion'', ''ao'', ''occlusion.diffuseTextureMap'', export_occ config),
      (''Specular Cavity'', ''cavity'', ''occlusion.specularTextureMap'', export_cav config),
      (''Diffuse Color'', ''albedo'', ''baseColor.textureMap'', export_dif config),
      (''Height'', ''displacement'', ''parallax.textureMap'', export_dis config),
      (''Emissive'', ''emissive'', ''emissive.textureMap'', export_emi config),
      (''Metallic'', ''metalness'', ''metallic.textureMap'', export_met config),
      (''Normal'', ''normal'', ''normal.textureMap'', export_ddn config),
      (''Roughness'', ''roughness'', ''roughness.textureMap'', export_rou config)]"

definition initial_material :: material where
  "initial_material =
     \<lparr>materialType = ''Materials/Types/StandardPBR.materialtype'',
      materialTypeVersion = 4,
      propertyValues = []\<rparr>"

text \<open>\<open>os.path.join\<close> with a single argument returns that argument.\<close>

definition make_map_name :: "string \<Rightarrow> string \<Rightarrow> string" where
  "make_map_name file_name map_name = file_name @ ''_'' @ map_name @ ''.tiff''"

definition make_file_map_name :: "BuildConfig \<Rightarrow> string \<Rightarrow> string \<Rightarrow> string" where
  "make_file_map_name config file_name map_name =
     os_path_join (textures_dir_path config) (make_map_name file_name map_name)"

definition make_asset_map_name :: "BuildConfig \<Rightarrow> string \<Rightarrow> string" where
  "make_asset_map_name config map_name =
     os_path_join (assets_root_path config) (make_map_name (output_file_name config) map_name)"

text \<open>The two \<open>[E]\<close> diagnostics, formatted with \<open>name\<close>, \<open>file\<close> and \<open>map\<close>.\<close>

definition not_renamed_msg :: "string \<Rightarrow> string \<Rightarrow> string \<Rightarrow> string" where
  "not_renamed_msg name file_base m =
     ''    [E] The '' @ name @ '' Map was enabled, but the file '' @ file_base @ ''_'' @ m
       @ ''.tiff do not exists. The file was not renamed.''"

definition not_added_msg :: "string \<Rightarrow> string \<Rightarrow> string \<Rightarrow> string" where
  "not_added_msg name file_base m =
     ''    [E] The '' @ name @ '' Map was enabled, but the file '' @ file_base @ ''_'' @ m
       @ ''.tiff do not exists. The file was not added in the material.''"

text \<open>The \<open>for\<close> loop of \<open>rename_texture_files\<close> over the map table.\<close>

fun rename_loop :: "BuildConfig \<Rightarrow> map_entry list \<Rightarrow> filesystem \<times> string list \<Rightarrow> filesystem \<times> string list" where
  "rename_loop config [] (fs, out) = (fs, out)"
| "rename_loop config ((name, m, key, enabled) # rest) (fs, out) =
     (if enabled then
        (if os_path_exists fs (make_file_map_name config (input_file_name config) m) then
           rename_loop config rest
             (os_rename (make_file_map_name config (input_file_name config) m)
                        (make_file_map_name config (output_file_name config) m) fs, out)
         else
           rename_loop config rest
             (fs, out @ [not_renamed_msg name (output_file_name config) m]))
      else rename_loop config rest (fs, out))"

text \<open>
  \<open>rename_texture_files\<close> reads and assigns \<open>config.output_file_name\<close>, so the
  configuration is part of the state it returns.
\<close>

definition rename_texture_files ::
  "bool \<Rightarrow> BuildConfig \<Rightarrow> filesystem \<times> string list \<Rightarrow> BuildConfig \<times> filesystem \<times> string list" where
  "rename_texture_files verbose config st =
     (case st of (fs, out) \<Rightarrow>
        if output_file_name config = [] \<or> output_file_name config = input_file_name config then
          (config\<lparr>output_file_name := input_file_name config\<rparr>, fs,
           out @ (if verbose then [''    [V] Skipping texture files renaming.''] else []))
        else
          (case rename_loop config (maps_table config)
                  (fs, out @ (if verbose then [''    [V] Renaming texture files...''] else [])) of
             (fs', out') \<Rightarrow>
               (config, fs', out' @ (if verbose then [''    [V] Texture files renamed.''] else []))))"

text \<open>The \<open>for\<close> loop of \<open>make_material\<close>; a dictionary store is \<open>AList.update\<close>.\<close>

fun make_material :: "BuildConfig \<Rightarrow> filesystem \<Rightarrow> map_entry list \<Rightarrow> material \<times> string list \<Rightarrow> material \<times> string list" where
  "make_material config fs [] (mat, out) = (mat, out)"
| "make_material config fs ((name, m, key, enabled) # rest) (mat, out) =
     (if enabled then
        (if os_path_exists fs (make_file_map_name config (output_file_name config) m) then
           make_material config fs rest
             (mat\<lparr>propertyValues :=
                    AList.update key (str_replace (CHR 0x5C) (CHR ''/'') (make_asset_map_name config m))
                      (propertyValues mat)\<rparr>, out)
         else
           make_material config fs rest
             (mat, out @ [not_added_msg name (output_file_name config) m]))
      else make_material config fs rest (mat, out))"

definition material_path :: "BuildConfig \<Rightarrow> string" where
  "material_path config =
     os_path_join (textures_dir_path config) (output_file_name config @ ''.material'')"

text \<open>
  \<open>build\<close>: the map table is made from the flags first, then the files are renamed,
  the material is assembled, and the document is written.  Returning from \<open>build\<close>
  ends the program with exit code 0.
\<close>

definition build :: "BuildConfig \<Rightarrow> bool \<Rightarrow> filesystem \<Rightarrow> run" where
  "build config verbose fs =
     (let maps = maps_table config;
          out0 = (if verbose then [''[V] Building material file...''] else [])
      in case rename_texture_files verbose config (fs, out0) of
           (config1, fs1, out1) \<Rightarrow>
             (case make_material config1 fs1 maps (initial_material, out1) of
                (mat, out2) \<Rightarrow>
                  \<lparr>exit_code = 0,
                   files = fs1(material_path config1 \<mapsto> Json mat),
                   printed = out2 @ (if verbose then [''[V] Material file build process complete.''] else [])\<rparr>))"

subsection \<open>The program (\<open>main\<close>)\<close>

definition shortopts :: string where
  "shortopts = ''hvf:o:d:a:''"

definition longopts :: "string list" where
  "longopts = [''occ'', ''cav'', ''dif'', ''dis'', ''emi'', ''met'', ''ddn'', ''rou'', ''default'', ''all'']"

text \<open>
  The part of \<open>main\<close> after \<open>getopt\<close> up to the call of \<open>build\<close>: either the program
  ends there (with what it printed and its exit code), or \<open>build\<close> is reached with a
  configuration and the verbosity.
\<close>

definition read_options :: "string \<Rightarrow> opts \<Rightarrow> (string list \<times> nat) + (BuildConfig \<times> bool)" where
  "read_options cwd opts =
     (if length opts = 0 then Inl (print_help False, 0)
      else case handle_opts opts (new_BuildConfig cwd, False) of
             None \<Rightarrow> Inl (print_help False, 0)
           | Some (config, verbose) \<Rightarrow>
               if input_file_name config = [] then Inl (print_error, 1)
               else Inr (config, verbose))"

definition run_options :: "string \<Rightarrow> opts \<Rightarrow> filesystem \<Rightarrow> run" where
  "run_options cwd opts fs =
     (case read_options cwd opts of
        Inl (out, code) \<Rightarrow> \<lparr>exit_code = code, files = fs, printed = out\<rparr>
      | Inr (config, verbose) \<Rightarrow> build config verbose fs)"

definition main :: "string \<Rightarrow> string list \<Rightarrow> filesystem \<Rightarrow> run" where
  "main cwd argv fs =
     (case getopt argv shortopts longopts of
        Inl e \<Rightarrow> \<lparr>exit_code = 1, files = fs, printed = print_error\<rparr>
      | Inr (opts, args) \<Rightarrow> run_options cwd opts fs)"

subsection \<open>Vocabulary of the properties\<close>

text \<open>
  The eight map categories, the flag of the configuration that enables each, and the
  set of categories a configuration enables.
\<close>

datatype category = Occ | Cav | Dif | Dis | Emi | Met | Ddn | Rou

fun export_flag :: "category \<Rightarrow> BuildConfig \<Rightarrow> bool" where
  "export_flag Occ c = export_occ c"
| "export_flag Cav c = export_cav c"
| "export_flag Dif c = export_dif c"
| "export_flag Dis c = export_dis c"
| "export_flag Emi c = export_emi c"
| "export_flag Met c = export_met c"
| "export_flag Ddn c = export_ddn c"
| "export_flag Rou c = export_rou c"

definition enabled :: "BuildConfig \<Rightarrow> category set" where
  "enabled c = set (filter (\<lambda>k. export_flag k c) [Occ, Cav, Dif, Dis, Emi, Met, Ddn, Rou])"

text \<open>
  What the specification says each command-line flag enables (its sections 4.1 and 6);
  this definition follows the specification's words, not the code.
\<close>

definition flag_enables :: "string \<Rightarrow> category set" where
  "flag_enables opt =
     (if opt = ''--occ'' then {Occ}
      else if opt = ''--cav'' then {Cav}
      else if opt = ''--dif'' then {Dif}
      else if opt = ''--dis'' then {Dis}
      else if opt = ''--emi'' then {Emi}
      else if opt = ''--met'' then {Met}
      else if opt = ''--ddn'' then {Ddn}
      else if opt = ''--rou'' then {Rou}
      else if opt = ''--default'' then {Dif, Ddn, Occ, Met, Rou}
      else if opt = ''--all'' then {Dif, Ddn, Occ, Met, Rou} \<union> {Emi, Cav, Dis}
      else {})"

text \<open>The option names that \<open>getopt\<close> can return for this program.\<close>

definition option_names :: "string list" where
  "option_names = [''-h'', ''-v'', ''-f'', ''-o'', ''-d'', ''-a'', ''--occ'', ''--cav'', ''--dif'',
     ''--dis'', ''--emi'', ''--met'', ''--ddn'', ''--rou'', ''--default'', ''--all'']"

text \<open>
  The input base name that a list of parsed options supplies: the argument of the last
  \<open>-f\<close>, or the empty string when there is none.
\<close>

definition supplied_input :: "opts \<Rightarrow> string" where
  "supplied_input opts =
     (case filter (\<lambda>oa. fst oa = ''-f'') opts of [] \<Rightarrow> [] | x # xs \<Rightarrow> snd (last (x # xs)))"

text \<open>
  A line of the verbose log: \<open>[V]\<close> after any leading blanks.  The list of the eight
  file suffixes of the map table.
\<close>

definition is_verbose_line :: "string \<Rightarrow> bool" where
  "is_verbose_line l = (take 3 (dropWhile (\<lambda>ch. ch = CHR '' '') l) = ''[V]'')"

definition map_suffixes :: "string list" where
  "map_suffixes = [''ao'', ''cavity'', ''albedo'', ''displacement'', ''emissive'', ''metalness'',
     ''normal'', ''roughness'']"
section \<open>Option processing\<close>

lemma enabled_iff: "k \<in> enabled c \<longleftrightarrow> export_flag k c"
  by (cases k) (simp_all add: enabled_def)

lemma handle_opt_h: "handle_opt (''-h'', arg) cv = None"
  by (cases cv) (simp add: handle_opt_def)

lemma handle_opt_not_h:
  assumes "opt \<noteq> ''-h''"
  shows "handle_opt (opt, arg) (c, v) \<noteq> None"
proof (cases "opt \<in> set option_names")
  case False
  then show ?thesis by (simp add: option_names_def handle_opt_def)
next
  case True
  then show ?thesis using assms
    unfolding option_names_def
    apply (simp only: set_simps insert_iff empty_iff)
    apply (elim disjE)
    by (simp_all add: handle_opt_def)
qed

lemma handle_opt_None: "handle_opt oa cv = None \<longleftrightarrow> fst oa = ''-h''"
proof (cases oa; cases cv)
  fix opt arg c v
  assume oa: "oa = (opt, arg)" and cv: "cv = (c, v)"
  show ?thesis
  proof (cases "opt = ''-h''")
    case True
    then show ?thesis using oa handle_opt_h by simp
  next
    case False
    then show ?thesis using oa cv handle_opt_not_h[OF False, of arg c v] by simp
  qed
qed

lemma handle_opt_flag:
  assumes "handle_opt (opt, arg) (c, v) = Some (c1, v1)"
  shows "export_flag k c1 = (export_flag k c \<or> k \<in> flag_enables opt)"
proof (cases "opt \<in> set option_names")
  case False
  then have "c1 = c" using assms by (simp add: option_names_def handle_opt_def)
  moreover have "flag_enables opt = {}" using False by (simp add: option_names_def flag_enables_def)
  ultimately show ?thesis by simp
next
  case True
  then show ?thesis using assms
    unfolding option_names_def
    apply (simp only: set_simps insert_iff empty_iff)
    apply (elim disjE)
    by (cases k; simp add: handle_opt_def flag_enables_def setup_all_def setup_default_def; fastforce)+
qed

lemma handle_opt_enabled:
  "handle_opt oa (c, v) = Some (c1, v1) \<Longrightarrow> enabled c1 = enabled c \<union> flag_enables (fst oa)"
  using handle_opt_flag[of "fst oa" "snd oa" c v c1 v1]
  by (auto simp: enabled_iff)

lemma handle_opts_None: "handle_opts opts cv = None \<longleftrightarrow> ''-h'' \<in> fst ` set opts"
proof (induction opts arbitrary: cv)
  case Nil
  show ?case by simp
next
  case (Cons oa rest)
  show ?case
  proof (cases "handle_opt oa cv")
    case None
    then show ?thesis using handle_opt_None[of oa cv] by simp
  next
    case (Some cv')
    then have "fst oa \<noteq> ''-h''" using handle_opt_None[of oa cv] by auto
    then show ?thesis using Some Cons.IH[of cv'] by auto
  qed
qed

lemma handle_opts_enabled:
  "handle_opts opts (c, v) = Some (c', v') \<Longrightarrow>
   enabled c' = enabled c \<union> (\<Union>oa \<in> set opts. flag_enables (fst oa))"
proof (induction opts arbitrary: c v)
  case Nil
  then show ?case by simp
next
  case (Cons oa rest)
  then obtain c1 v1 where s: "handle_opt oa (c, v) = Some (c1, v1)"
    and r: "handle_opts rest (c1, v1) = Some (c', v')"
    by (auto split: option.splits)
  show ?case using handle_opt_enabled[OF s] Cons.IH[OF r] by auto
qed

text \<open>
  Claim C5.  From a fresh configuration, \<open>--default\<close> enables exactly diffuse, normal,
  occlusion, metalness and roughness and leaves emissive, cavity and displacement
  disabled; \<open>--all\<close> gives the same configuration as the eight individual category
  flags together, namely the one with all eight categories enabled.
\<close>

theorem setup_default_all_flags:
  "setup_default (new_BuildConfig cwd) =
     \<lparr>export_occ = True, export_cav = False, export_dif = True, export_dis = False,
      export_emi = False, export_met = True, export_ddn = True, export_rou = True,
      input_file_name = [], output_file_name = [],
      textures_dir_path = cwd, assets_root_path = ''Assets''\<rparr>
   \<and> enabled (setup_default (new_BuildConfig cwd)) = {Dif, Ddn, Occ, Met, Rou}
   \<and> handle_opts [(''--default'', [])] (new_BuildConfig cwd, False)
       = Some (setup_default (new_BuildConfig cwd), False)
   \<and> handle_opts [(''--all'', [])] (new_BuildConfig cwd, False)
       = handle_opts [(''--occ'', []), (''--cav'', []), (''--dif'', []), (''--dis'', []),
                      (''--emi'', []), (''--met'', []), (''--ddn'', []), (''--rou'', [])]
           (new_BuildConfig cwd, False)
   \<and> handle_opts [(''--all'', [])] (new_BuildConfig cwd, False)
       = Some (\<lparr>export_occ = True, export_cav = True, export_dif = True, export_dis = True,
                export_emi = True, export_met = True, export_ddn = True, export_rou = True,
                input_file_name = [], output_file_name = [],
                textures_dir_path = cwd, assets_root_path = ''Assets''\<rparr>, False)"
proof (intro conjI)
  show "setup_default (new_BuildConfig cwd) =
     \<lparr>export_occ = True, export_cav = False, export_dif = True, export_dis = False,
      export_emi = False, export_met = True, export_ddn = True, export_rou = True,
      input_file_name = [], output_file_name = [],
      textures_dir_path = cwd, assets_root_path = ''Assets''\<rparr>"
    by (simp add: setup_default_def new_BuildConfig_def)
  show "enabled (setup_default (new_BuildConfig cwd)) = {Dif, Ddn, Occ, Met, Rou}"
    by (simp add: enabled_def setup_default_def new_BuildConfig_def) blast
  show "handle_opts [(''--default'', [])] (new_BuildConfig cwd, False)
       = Some (setup_default (new_BuildConfig cwd), False)"
    by (simp add: handle_opt_def)
  have all: "handle_opts [(''--all'', [])] (new_BuildConfig cwd, False)
       = Some (\<lparr>export_occ = True, export_cav = True, export_dif = True, export_dis = True,
                export_emi = True, export_met = True, export_ddn = True, export_rou = True,
                input_file_name = [], output_file_name = [],
                textures_dir_path = cwd, assets_root_path = ''Assets''\<rparr>, False)"
    by (simp add: handle_opt_def setup_all_def setup_default_def new_BuildConfig_def)
  have eight: "handle_opts [(''--occ'', []), (''--cav'', []), (''--dif'', []), (''--dis'', []),
                      (''--emi'', []), (''--met'', []), (''--ddn'', []), (''--rou'', [])]
           (new_BuildConfig cwd, False)
       = Some (\<lparr>export_occ = True, export_cav = True, export_dif = True, export_dis = True,
                export_emi = True, export_met = True, export_ddn = True, export_rou = True,
                input_file_name = [], output_file_name = [],
                textures_dir_path = cwd, assets_root_path = ''Assets''\<rparr>, False)"
    by (simp add: handle_opt_def new_BuildConfig_def)
  show "handle_opts [(''--all'', [])] (new_BuildConfig cwd, False)
       = handle_opts [(''--occ'', []), (''--cav'', []), (''--dif'', []), (''--dis'', []),
                      (''--emi'', []), (''--met'', []), (''--ddn'', []), (''--rou'', [])]
           (new_BuildConfig cwd, False)"
    using all eight by simp
  show "handle_opts [(''--all'', [])] (new_BuildConfig cwd, False)
       = Some (\<lparr>export_occ = True, export_cav = True, export_dif = True, export_dis = True,
                export_emi = True, export_met = True, export_ddn = True, export_rou = True,
                input_file_name = [], output_file_name = [],
                textures_dir_path = cwd, assets_root_path = ''Assets''\<rparr>, False)"
    by (rule all)
qed

theorem setup_default_all_flags_witness:
  "enabled (setup_default (new_BuildConfig ''/work'')) = {Dif, Ddn, Occ, Met, Rou}
   \<and> handle_opts [(''--all'', [])] (new_BuildConfig ''/work'', False)
       = handle_opts [(''--occ'', []), (''--cav'', []), (''--dif'', []), (''--dis'', []),
                      (''--emi'', []), (''--met'', []), (''--ddn'', []), (''--rou'', [])]
           (new_BuildConfig ''/work'', False)"
  using setup_default_all_flags[of "''/work''"] by blast

text \<open>
  Claim C6.  Option processing only ever enables categories: one option never turns an
  enabled category off, and a whole option list that does not leave through \<open>-h\<close>
  enables exactly the categories enabled before together with the union of what each
  of its flags enables (so the order of the flags does not matter); without \<open>-h\<close>
  the loop always runs to its end.
\<close>

theorem option_processing_monotonic:
  "(handle_opt oa (c, v) = Some (c1, v1) \<longrightarrow> enabled c \<subseteq> enabled c1)
   \<and> (handle_opts opts (c, v) = Some (c', v') \<longrightarrow>
        enabled c \<subseteq> enabled c'
        \<and> enabled c' = enabled c \<union> (\<Union>oa \<in> set opts. flag_enables (fst oa)))
   \<and> (''-h'' \<notin> fst ` set opts \<longrightarrow> (\<exists>c' v'. handle_opts opts (c, v) = Some (c', v')))"
proof (intro conjI impI)
  assume "handle_opt oa (c, v) = Some (c1, v1)"
  then show "enabled c \<subseteq> enabled c1" using handle_opt_enabled by blast
next
  assume h: "handle_opts opts (c, v) = Some (c', v')"
  show e: "enabled c' = enabled c \<union> (\<Union>oa \<in> set opts. flag_enables (fst oa))"
    by (rule handle_opts_enabled[OF h])
  show "enabled c \<subseteq> enabled c'" using e by blast
next
  assume "''-h'' \<notin> fst ` set opts"
  then have "handle_opts opts (c, v) \<noteq> None" using handle_opts_None by blast
  then show "\<exists>c' v'. handle_opts opts (c, v) = Some (c', v')" by auto
qed

theorem option_processing_monotonic_witness:
  "handle_opts [(''--cav'', []), (''--default'', [])] (new_BuildConfig ''/work'', False)
     = Some (setup_default ((new_BuildConfig ''/work'')\<lparr>export_cav := True\<rparr>), False)
   \<and> enabled (setup_default ((new_BuildConfig ''/work'')\<lparr>export_cav := True\<rparr>))
       = enabled (new_BuildConfig ''/work'') \<union> (flag_enables ''--cav'' \<union> flag_enables ''--default'')
   \<and> enabled (new_BuildConfig ''/work'') = {}
   \<and> flag_enables ''--cav'' = {Cav}
   \<and> flag_enables ''--default'' = {Dif, Ddn, Occ, Met, Rou}"
proof -
  have run: "handle_opts [(''--cav'', []), (''--default'', [])] (new_BuildConfig ''/work'', False)
     = Some (setup_default ((new_BuildConfig ''/work'')\<lparr>export_cav := True\<rparr>), False)"
    by (simp add: handle_opt_def)
  have "enabled (setup_default ((new_BuildConfig ''/work'')\<lparr>export_cav := True\<rparr>))
       = enabled (new_BuildConfig ''/work'')
           \<union> (\<Union>oa \<in> set ([(''--cav'', []), (''--default'', [])] :: opts). flag_enables (fst oa))"
    using option_processing_monotonic[THEN conjunct2, THEN conjunct1, THEN mp, OF run, THEN conjunct2] .
  then have un: "enabled (setup_default ((new_BuildConfig ''/work'')\<lparr>export_cav := True\<rparr>))
       = enabled (new_BuildConfig ''/work'') \<union> (flag_enables ''--cav'' \<union> flag_enables ''--default'')"
    by simp
  have e0: "enabled (new_BuildConfig ''/work'') = {}"
    by (simp add: enabled_def new_BuildConfig_def)
  have f1: "flag_enables ''--cav'' = {Cav}"
    by (simp add: flag_enables_def)
  have f2: "flag_enables ''--default'' = {Dif, Ddn, Occ, Met, Rou}"
    by (simp add: flag_enables_def)
  show ?thesis using run un e0 f1 f2 by (intro conjI)
qed

section \<open>Runs that end before \<open>build\<close>\<close>

lemma handle_opt_input:
  assumes "handle_opt (opt, arg) (c, v) = Some (c1, v1)"
  shows "input_file_name c1 = (if opt = ''-f'' then arg else input_file_name c)"
proof (cases "opt \<in> set option_names")
  case False
  then show ?thesis using assms by (auto simp add: option_names_def handle_opt_def)
next
  case True
  then show ?thesis using assms
    unfolding option_names_def
    apply (simp only: set_simps insert_iff empty_iff)
    apply (elim disjE)
    by (auto simp add: handle_opt_def setup_all_def setup_default_def)
qed

lemma supplied_input_Cons:
  "supplied_input (oa # rest) =
     (if ''-f'' \<in> fst ` set rest then supplied_input rest
      else if fst oa = ''-f'' then snd oa else [])"
proof -
  have none: "''-f'' \<notin> fst ` set rest \<Longrightarrow> filter (\<lambda>oa. fst oa = ''-f'') rest = []"
    by (induction rest) auto
  have some: "''-f'' \<in> fst ` set rest \<Longrightarrow> filter (\<lambda>oa. fst oa = ''-f'') rest \<noteq> []"
    by (induction rest) auto
  show ?thesis
  proof (cases "''-f'' \<in> fst ` set rest")
    case True
    then show ?thesis using some[OF True]
      by (cases "filter (\<lambda>oa. fst oa = ''-f'') rest") (simp_all add: supplied_input_def)
  next
    case False
    then show ?thesis using none[OF False] by (simp add: supplied_input_def)
  qed
qed

lemma handle_opts_input:
  "handle_opts opts (c, v) = Some (c', v') \<Longrightarrow>
   input_file_name c' = (if ''-f'' \<in> fst ` set opts then supplied_input opts else input_file_name c)"
proof (induction opts arbitrary: c v)
  case Nil
  then show ?case by simp
next
  case (Cons oa rest)
  obtain opt arg where oa: "oa = (opt, arg)" by (cases oa)
  from Cons.prems obtain c1 v1 where s: "handle_opt (opt, arg) (c, v) = Some (c1, v1)"
    and r: "handle_opts rest (c1, v1) = Some (c', v')"
    by (auto simp: oa split: option.splits)
  have i1: "input_file_name c1 = (if opt = ''-f'' then arg else input_file_name c)"
    by (rule handle_opt_input[OF s])
  have i2: "input_file_name c' =
      (if ''-f'' \<in> fst ` set rest then supplied_input rest else input_file_name c1)"
    by (rule Cons.IH[OF r])
  show ?case
    unfolding supplied_input_Cons using i1 i2 by (auto simp: oa)
qed

lemma supplied_input_no_f:
  assumes "''-f'' \<notin> fst ` set opts"
  shows "supplied_input opts = []"
proof -
  have "filter (\<lambda>oa. fst oa = ''-f'') opts = []"
    using assms by (induction opts) auto
  then show ?thesis by (simp add: supplied_input_def)
qed

lemma read_options_help:
  "opts = [] \<or> ''-h'' \<in> fst ` set opts \<Longrightarrow> read_options cwd opts = Inl (print_help False, 0)"
  using handle_opts_None[of opts "(new_BuildConfig cwd, False)"]
  by (auto simp: read_options_def)

lemma read_options_error:
  assumes "opts \<noteq> []" and "''-h'' \<notin> fst ` set opts" and "supplied_input opts = []"
  shows "read_options cwd opts = Inl (print_error, 1)"
proof -
  from assms(2) obtain c v where h: "handle_opts opts (new_BuildConfig cwd, False) = Some (c, v)"
    using handle_opts_None[of opts "(new_BuildConfig cwd, False)"] by (cases "handle_opts opts (new_BuildConfig cwd, False)") auto
  have "input_file_name c = []"
    using handle_opts_input[OF h] assms(3) by (simp add: new_BuildConfig_def)
  then show ?thesis using assms(1) h by (simp add: read_options_def)
qed

lemma read_options_build:
  assumes "read_options cwd opts = Inr (c, v)"
  shows "input_file_name c \<noteq> [] \<and> handle_opts opts (new_BuildConfig cwd, False) = Some (c, v)"
  using assms
  by (auto simp: read_options_def split: if_splits option.splits)

text \<open>
  Claim C8.  When \<open>-h\<close> is among the parsed options, or no option was parsed at all,
  the program prints the help text and exits with code 0; the file system is left as
  it was, so nothing is renamed and no material is written.
\<close>

theorem help_exits_without_action:
  assumes "getopt argv shortopts longopts = Inr (opts, args)"
    and "opts = [] \<or> ''-h'' \<in> fst ` set opts"
  shows "main cwd argv fs =
           \<lparr>exit_code = 0, files = fs, printed = [''O3DE Material Generator for'']\<rparr>"
  using assms(1) read_options_help[OF assms(2), of cwd]
  by (simp add: main_def run_options_def print_help_def)

theorem help_exits_without_action_witness:
  "main ''/work'' [''-v'', ''-h''] (Map.empty(''/work/base_albedo.tiff'' \<mapsto> Blob 1))
     = \<lparr>exit_code = 0, files = Map.empty(''/work/base_albedo.tiff'' \<mapsto> Blob 1),
        printed = [''O3DE Material Generator for'']\<rparr>
   \<and> main ''/work'' [] Map.empty
     = \<lparr>exit_code = 0, files = Map.empty, printed = [''O3DE Material Generator for'']\<rparr>"
proof -
  have g1: "getopt [''-v'', ''-h''] shortopts longopts = Inr ([(''-v'', ''''), (''-h'', '''')], [])"
    by (simp add: getopt_def shortopts_def)
  have g2: "getopt [] shortopts longopts = Inr ([], [])"
    by (simp add: getopt_def)
  have m1: "''-h'' \<in> fst ` set [(''-v'', ''''), (''-h'', '''')]" by simp
  show ?thesis
    using help_exits_without_action[OF g1 disjI2[OF m1]]
          help_exits_without_action[OF g2 disjI1[OF refl]]
    by (intro conjI)
qed

text \<open>
  Claim C7, as stated, fails: \<open>-v -h\<close> parses, supplies no input base name and holds an
  option other than \<open>-h\<close>, yet the loop reaches \<open>-h\<close>, prints the help and the program
  exits with code 0, not 1.
\<close>

theorem usage_error_counterexample:
  "getopt [''-v'', ''-h''] shortopts longopts = Inr ([(''-v'', ''''), (''-h'', '''')], [])
   \<and> supplied_input [(''-v'', ''''), (''-h'', '''')] = []
   \<and> (''-v'', '''') \<in> set [(''-v'', ''''), (''-h'', '''')]
   \<and> ''-v'' \<noteq> ''-h''
   \<and> exit_code (main ''/work'' [''-v'', ''-h''] Map.empty) = 0
   \<and> printed (main ''/work'' [''-v'', ''-h''] Map.empty) = [''O3DE Material Generator for'']"
proof -
  have g: "getopt [''-v'', ''-h''] shortopts longopts = Inr ([(''-v'', ''''), (''-h'', '''')], [])"
    by (simp add: getopt_def shortopts_def)
  have r: "read_options ''/work'' [(''-v'', ''''), (''-h'', '''')] = Inl (print_help False, 0)"
    by (rule read_options_help) simp
  have m: "main ''/work'' [''-v'', ''-h''] Map.empty
             = \<lparr>exit_code = 0, files = Map.empty, printed = [''O3DE Material Generator for'']\<rparr>"
    using g r by (simp add: main_def run_options_def print_help_def)
  have s: "supplied_input [(''-v'', ''''), (''-h'', '''')] = []"
    by (simp add: supplied_input_def)
  show ?thesis using g s m by simp
qed

text \<open>
  Claim C7, amended.  When the argument vector is malformed option syntax, or it parses
  into at least one option, none of them \<open>-h\<close>, and supplies no input base name (no
  \<open>-f\<close>, or an empty one), the program prints the error message and exits with code 1;
  the file system is left as it was, so nothing is renamed and no material is written.
\<close>

theorem usage_error_exits_without_action:
  assumes "(\<exists>e. getopt argv shortopts longopts = Inl e)
           \<or> (getopt argv shortopts longopts = Inr (opts, args) \<and> opts \<noteq> []
               \<and> ''-h'' \<notin> fst ` set opts \<and> supplied_input opts = [])"
  shows "main cwd argv fs =
           \<lparr>exit_code = 1, files = fs,
            printed = [''Invalid arguments passed to the script.\<newline>'']\<rparr>"
  using assms
proof (elim disjE exE conjE)
  fix e assume "getopt argv shortopts longopts = Inl e"
  then show ?thesis by (simp add: main_def print_error_def print_help_def)
next
  assume g: "getopt argv shortopts longopts = Inr (opts, args)"
    and "opts \<noteq> []" "''-h'' \<notin> fst ` set opts" "supplied_input opts = []"
  then have "read_options cwd opts = Inl (print_error, 1)"
    using read_options_error by blast
  then show ?thesis using g
    by (simp add: main_def run_options_def print_error_def print_help_def)
qed

theorem usage_error_exits_without_action_witness:
  "main ''/work'' [''--dif''] (Map.empty(''/work/base_albedo.tiff'' \<mapsto> Blob 1))
     = \<lparr>exit_code = 1, files = Map.empty(''/work/base_albedo.tiff'' \<mapsto> Blob 1),
        printed = [''Invalid arguments passed to the script.\<newline>'']\<rparr>
   \<and> main ''/work'' [''-x''] (Map.empty(''/work/base_albedo.tiff'' \<mapsto> Blob 1))
     = \<lparr>exit_code = 1, files = Map.empty(''/work/base_albedo.tiff'' \<mapsto> Blob 1),
        printed = [''Invalid arguments passed to the script.\<newline>'']\<rparr>"
proof -
  have g1: "getopt [''--dif''] shortopts longopts = Inr ([(''--dif'', '''')], [])"
    by (simp add: getopt_def shortopts_def longopts_def do_longs_def long_has_args_def)
  have g2: "getopt [''-x''] shortopts longopts = Inl (GetoptError ''option -%s not recognized'' ''x'')"
    by (simp add: getopt_def shortopts_def)
  have s1: "supplied_input [(''--dif'', '''')] = []"
    by (simp add: supplied_input_def)
  have h1: "getopt [''--dif''] shortopts longopts = Inr ([(''--dif'', '''')], [])
            \<and> [(''--dif'', '''')] \<noteq> ([] :: opts)
            \<and> ''-h'' \<notin> fst ` set [(''--dif'', '''')] \<and> supplied_input [(''--dif'', '''')] = []"
    using g1 s1 by simp
  have h2: "\<exists>e. getopt [''-x''] shortopts longopts = Inl e"
    using g2 by blast
  show ?thesis
    using usage_error_exits_without_action[OF disjI2[OF h1]]
          usage_error_exits_without_action[OF disjI1[OF h2]]
    by (intro conjI)
qed

section \<open>Paths of the texture files and of the material\<close>

lemma join_tail: "\<exists>q. os_path_join d x = q @ x"
proof (cases "prefix ''/'' x")
  case True
  then have "os_path_join d x = [] @ x" by (simp add: os_path_join_def)
  then show ?thesis by blast
next
  case False
  show ?thesis
  proof (cases "d = [] \<or> suffix ''/'' d")
    case True
    then have "os_path_join d x = d @ x" using False by (simp add: os_path_join_def)
    then show ?thesis by blast
  next
    case nosep: False
    then have "os_path_join d x = (d @ ''/'') @ x" using False by (simp add: os_path_join_def)
    then show ?thesis by blast
  qed
qed

lemma texture_tail: "\<exists>q. make_file_map_name c b m = q @ ''_'' @ m @ ''.tiff''"
proof -
  obtain q where "os_path_join (textures_dir_path c) (make_map_name b m) = q @ make_map_name b m"
    using join_tail by blast
  then have "make_file_map_name c b m = (q @ b) @ ''_'' @ m @ ''.tiff''"
    by (simp add: make_file_map_name_def make_map_name_def)
  then show ?thesis by blast
qed


lemma rev_texture_tail: "rev (q @ ''_'' @ m @ ''.tiff'') = ''ffit.'' @ rev m @ ''_'' @ rev q"
  by simp

lemma tails_distinct:
  assumes "m \<in> set map_suffixes" and "m' \<in> set map_suffixes"
    and "q @ ''_'' @ m @ ''.tiff'' = q' @ ''_'' @ m' @ ''.tiff''"
  shows "m = m'"
proof -
  have "rev (q @ ''_'' @ m @ ''.tiff'') = rev (q' @ ''_'' @ m' @ ''.tiff'')"
    using assms(3) by (rule arg_cong)
  then have r: "''ffit.'' @ rev m @ ''_'' @ rev q = ''ffit.'' @ rev m' @ ''_'' @ rev q'"
    unfolding rev_texture_tail .
  show ?thesis
    using assms(1,2) r unfolding map_suffixes_def
    apply (simp only: set_simps insert_iff empty_iff)
    apply (elim disjE)
    by simp_all
qed

lemma texture_paths_distinct:
  assumes "m \<in> set map_suffixes" and "m' \<in> set map_suffixes" and "m \<noteq> m'"
  shows "make_file_map_name c b m \<noteq> make_file_map_name c' b' m'"
proof
  assume eq: "make_file_map_name c b m = make_file_map_name c' b' m'"
  obtain q where q: "make_file_map_name c b m = q @ ''_'' @ m @ ''.tiff''"
    using texture_tail by blast
  obtain q' where q': "make_file_map_name c' b' m' = q' @ ''_'' @ m' @ ''.tiff''"
    using texture_tail by blast
  have "m = m'" using tails_distinct[OF assms(1,2)] eq q q' by simp
  then show False using assms(3) by simp
qed


lemma maps_table_suffixes:
  "(n, m, k, e) \<in> set (maps_table c) \<Longrightarrow> m \<in> set map_suffixes"
  by (auto simp: maps_table_def map_suffixes_def)

lemma maps_table_distinct_suffixes: "distinct (map (\<lambda>x. fst (snd x)) (maps_table c))"
  by (simp add: maps_table_def)

lemma maps_table_distinct_keys: "distinct (map (\<lambda>x. fst (snd (snd x))) (maps_table c))"
  by (simp add: maps_table_def)

section \<open>The renaming loop\<close>

lemma os_rename_other: "p \<noteq> src \<Longrightarrow> p \<noteq> dst \<Longrightarrow> os_rename src dst fs p = fs p"
  by (simp add: os_rename_def)


lemma rename_loop_out:
  "rename_loop c es (fs, out) =
     (fst (rename_loop c es (fs, [])), out @ snd (rename_loop c es (fs, [])))"
proof (induction es arbitrary: fs out)
  case Nil
  show ?case by simp
next
  case (Cons x es)
  obtain n m k e where x: "x = (n, m, k, e)" by (cases x)
  show ?case
  proof (cases "e \<and> \<not> os_path_exists fs (make_file_map_name c (input_file_name c) m)")
    case True
    then show ?thesis
      using Cons.IH[of fs "out @ [not_renamed_msg n (output_file_name c) m]"]
            Cons.IH[of fs "[not_renamed_msg n (output_file_name c) m]"]
      by (simp add: x)
  next
    case False
    then show ?thesis
      using Cons.IH[of fs out]
            Cons.IH[of "os_rename (make_file_map_name c (input_file_name c) m)
                          (make_file_map_name c (output_file_name c) m) fs" out]
      by (auto simp: x)
  qed
qed



lemma rename_loop_keeps_out: "set out \<subseteq> set (snd (rename_loop c es (fs, out)))"
  by (subst rename_loop_out) simp

lemma rename_loop_diagnosed:
  assumes "\<And>n m k e. (n, m, k, e) \<in> set es \<Longrightarrow> m \<in> set map_suffixes"
    and "distinct (map (\<lambda>x. fst (snd x)) es)"
    and "(n, m, k, True) \<in> set es"
    and "fs (make_file_map_name c (input_file_name c) m) = None"
  shows "not_renamed_msg n (output_file_name c) m \<in> set (snd (rename_loop c es (fs, out)))"
  using assms
proof (induction es arbitrary: fs out)
  case Nil
  then show ?case by simp
next
  case (Cons x es)
  let ?S = "make_file_map_name c (input_file_name c) m"
  obtain n' m' k' e' where x: "x = (n', m', k', e')" by (cases x)
  have m_ok: "m \<in> set map_suffixes" using Cons.prems(1)[OF Cons.prems(3)] .
  have m'_ok: "m' \<in> set map_suffixes" using Cons.prems(1)[of n' m' k' e'] by (simp add: x)
  show ?case
  proof (cases "m' = m")
    case True
    have notin: "m \<notin> (\<lambda>x. fst (snd x)) ` set es" using Cons.prems(2) True by (simp add: x)
    have head: "e' = True" "n' = n" "k' = k"
      using Cons.prems(3) notin True by (auto simp: x image_iff)
    have step: "rename_loop c (x # es) (fs, out)
                  = rename_loop c es (fs, out @ [not_renamed_msg n (output_file_name c) m])"
      using head True Cons.prems(4) by (simp add: x os_path_exists_def)
    show ?thesis
      using step rename_loop_keeps_out[of "out @ [not_renamed_msg n (output_file_name c) m]" c es fs]
      by auto
  next
    case False
    have inrest: "(n, m, k, True) \<in> set es" using Cons.prems(3) False by (simp add: x)
    have ne: "?S \<noteq> make_file_map_name c (input_file_name c) m'"
             "?S \<noteq> make_file_map_name c (output_file_name c) m'"
      using texture_paths_distinct[OF m_ok m'_ok] False by auto
    have d: "distinct (map (\<lambda>x. fst (snd x)) es)" using Cons.prems(2) by simp
    have suf: "\<And>n m k e. (n, m, k, e) \<in> set es \<Longrightarrow> m \<in> set map_suffixes"
      using Cons.prems(1) by auto
    have ih: "not_renamed_msg n (output_file_name c) m \<in> set (snd (rename_loop c es (fs', out')))"
      if a: "fs' ?S = None" for fs' out'
    proof (rule Cons.IH[where fs = fs' and out = out'])
      show "\<And>n m k e. (n, m, k, e) \<in> set es \<Longrightarrow> m \<in> set map_suffixes" by (rule suf)
      show "distinct (map (\<lambda>x. fst (snd x)) es)" by (rule d)
      show "(n, m, k, True) \<in> set es" by (rule inrest)
      show "fs' ?S = None" by (rule a)
    qed
    have keep: "os_rename (make_file_map_name c (input_file_name c) m')
                  (make_file_map_name c (output_file_name c) m') fs ?S = None"
      using os_rename_other[OF ne] Cons.prems(4) by simp
    show ?thesis
      using ih[of fs, OF Cons.prems(4)]
            ih[of "os_rename (make_file_map_name c (input_file_name c) m')
                     (make_file_map_name c (output_file_name c) m') fs", OF keep]
      by (simp add: x)
  qed
qed

section \<open>Assembling the material\<close>

lemma make_material_out:
  "make_material c fs es (mat, out) =
     (fst (make_material c fs es (mat, [])), out @ snd (make_material c fs es (mat, [])))"
proof (induction es arbitrary: mat out)
  case Nil
  show ?case by simp
next
  case (Cons x es)
  obtain n m k e where x: "x = (n, m, k, e)" by (cases x)
  show ?case
  proof (cases "e \<and> \<not> os_path_exists fs (make_file_map_name c (output_file_name c) m)")
    case True
    then show ?thesis
      using Cons.IH[of mat "out @ [not_added_msg n (output_file_name c) m]"]
            Cons.IH[of mat "[not_added_msg n (output_file_name c) m]"]
      by (simp add: x)
  next
    case False
    then show ?thesis
      using Cons.IH[of mat out]
            Cons.IH[of "mat\<lparr>propertyValues :=
                    AList.update k (str_replace (CHR 0x5C) (CHR ''/'') (make_asset_map_name c m))
                      (propertyValues mat)\<rparr>" out]
      by (auto simp: x)
  qed
qed

lemma make_material_keeps_out: "set out \<subseteq> set (snd (make_material c fs es (mat, out)))"
  by (subst make_material_out) simp

lemma make_material_constants:
  "materialType (fst (make_material c fs es (mat, out))) = materialType mat
   \<and> materialTypeVersion (fst (make_material c fs es (mat, out))) = materialTypeVersion mat"
proof (induction es arbitrary: mat out)
  case Nil
  show ?case by simp
next
  case (Cons x es)
  obtain n m k e where x: "x = (n, m, k, e)" by (cases x)
  show ?case using Cons.IH by (simp add: x)
qed

lemma make_material_untouched:
  assumes "\<And>n m e. (n, m, k, e) \<in> set es \<Longrightarrow>
             \<not> (e \<and> os_path_exists fs (make_file_map_name c (output_file_name c) m))"
  shows "map_of (propertyValues (fst (make_material c fs es (mat, out)))) k
           = map_of (propertyValues mat) k"
  using assms
proof (induction es arbitrary: mat out)
  case Nil
  show ?case by simp
next
  case (Cons x es)
  obtain n m k' e where x: "x = (n, m, k', e)" by (cases x)
  have rest: "map_of (propertyValues (fst (make_material c fs es (mat', out')))) k
                = map_of (propertyValues mat') k" for mat' out'
    by (rule Cons.IH) (use Cons.prems in auto)
  show ?case
  proof (cases "e \<and> os_path_exists fs (make_file_map_name c (output_file_name c) m)")
    case False
    then show ?thesis using rest by (auto simp: x)
  next
    case True
    then have "k' \<noteq> k" using Cons.prems[of n m e] by (auto simp: x)
    then show ?thesis using True rest by (simp add: x update_conv')
  qed
qed

lemma make_material_added:
  assumes "distinct (map (\<lambda>x. fst (snd (snd x))) es)"
    and "(n, m, k, True) \<in> set es"
    and "os_path_exists fs (make_file_map_name c (output_file_name c) m)"
  shows "map_of (propertyValues (fst (make_material c fs es (mat, out)))) k
           = Some (str_replace (CHR 0x5C) (CHR ''/'') (make_asset_map_name c m))"
  using assms
proof (induction es arbitrary: mat out)
  case Nil
  then show ?case by simp
next
  case (Cons x es)
  obtain n' m' k' e' where x: "x = (n', m', k', e')" by (cases x)
  show ?case
  proof (cases "k' = k")
    case True
    have notin: "k \<notin> (\<lambda>x. fst (snd (snd x))) ` set es" using Cons.prems(1) True by (simp add: x)
    have head: "e' = True" "n' = n" "m' = m"
      using Cons.prems(2) notin True by (auto simp: x image_iff)
    let ?mat1 = "mat\<lparr>propertyValues :=
                    AList.update k (str_replace (CHR 0x5C) (CHR ''/'') (make_asset_map_name c m))
                      (propertyValues mat)\<rparr>"
    have step: "make_material c fs (x # es) (mat, out) = make_material c fs es (?mat1, out)"
      using head True Cons.prems(3) by (simp add: x)
    have "map_of (propertyValues (fst (make_material c fs es (?mat1, out)))) k
            = map_of (propertyValues ?mat1) k"
    proof (rule make_material_untouched)
      fix n2 m2 e2 assume "(n2, m2, k, e2) \<in> set es"
      then have False using notin by (auto simp: image_iff)
      then show "\<not> (e2 \<and> os_path_exists fs (make_file_map_name c (output_file_name c) m2))" ..
    qed
    then show ?thesis using step by (simp add: update_conv')
  next
    case False
    have inrest: "(n, m, k, True) \<in> set es" using Cons.prems(2) False by (auto simp: x)
    have d: "distinct (map (\<lambda>x. fst (snd (snd x))) es)" using Cons.prems(1) by simp
    have ih: "map_of (propertyValues (fst (make_material c fs es (mat', out')))) k
           = Some (str_replace (CHR 0x5C) (CHR ''/'') (make_asset_map_name c m))" for mat' out'
      by (rule Cons.IH[OF d inrest Cons.prems(3)])
    show ?thesis using ih by (simp add: x)
  qed
qed

lemma make_material_diagnosed:
  assumes "(n, m, k, True) \<in> set es"
    and "\<not> os_path_exists fs (make_file_map_name c (output_file_name c) m)"
  shows "not_added_msg n (output_file_name c) m \<in> set (snd (make_material c fs es (mat, out)))"
  using assms
proof (induction es arbitrary: mat out)
  case Nil
  then show ?case by simp
next
  case (Cons x es)
  obtain n' m' k' e' where x: "x = (n', m', k', e')" by (cases x)
  show ?case
  proof (cases "x = (n, m, k, True)")
    case True
    then have step: "make_material c fs (x # es) (mat, out)
                  = make_material c fs es (mat, out @ [not_added_msg n (output_file_name c) m])"
      using Cons.prems(2) by simp
    show ?thesis
      using step make_material_keeps_out[of "out @ [not_added_msg n (output_file_name c) m]" c fs es mat]
      by auto
  next
    case False
    then have inrest: "(n, m, k, True) \<in> set es" using Cons.prems(1) by auto
    have ih: "not_added_msg n (output_file_name c) m \<in> set (snd (make_material c fs es (mat', out')))"
      for mat' out'
      by (rule Cons.IH[OF inrest Cons.prems(2)])
    show ?thesis using ih by (simp add: x)
  qed
qed

lemma str_replace_absent: "old \<noteq> new \<Longrightarrow> old \<notin> set (str_replace old new s)"
  by (auto simp: str_replace_def)

lemma alist_update_set:
  "(k, v) \<in> set (AList.update k' v' al) \<Longrightarrow> (k, v) \<in> set al \<or> (k = k' \<and> v = v')"
  by (induction al) (auto split: if_splits)

lemma make_material_values:
  assumes "(k, v) \<in> set (propertyValues (fst (make_material c fs es (mat, out))))"
  shows "(k, v) \<in> set (propertyValues mat)
         \<or> (\<exists>n m e. (n, m, k, e) \<in> set es
               \<and> v = str_replace (CHR 0x5C) (CHR ''/'') (make_asset_map_name c m))"
  using assms
proof (induction es arbitrary: mat out)
  case Nil
  then show ?case by simp
next
  case (Cons x es)
  obtain n' m' k' e' where x: "x = (n', m', k', e')" by (cases x)
  show ?case
  proof (cases "e' \<and> os_path_exists fs (make_file_map_name c (output_file_name c) m')")
    case False
    then have "(k, v) \<in> set (propertyValues (fst (make_material c fs es (mat, out2))))" for out2
      using Cons.prems make_material_out[of c fs es mat out2] make_material_out[of c fs es mat out]
            make_material_out[of c fs es mat "out @ [not_added_msg n' (output_file_name c) m']"]
      by (auto simp: x split: if_splits)
    from Cons.IH[OF this] show ?thesis by auto
  next
    case True
    let ?v = "str_replace (CHR 0x5C) (CHR ''/'') (make_asset_map_name c m')"
    let ?mat1 = "mat\<lparr>propertyValues := AList.update k' ?v (propertyValues mat)\<rparr>"
    have "(k, v) \<in> set (propertyValues (fst (make_material c fs es (?mat1, out))))"
      using Cons.prems True by (simp add: x)
    from Cons.IH[OF this]
    have "(k, v) \<in> set (AList.update k' ?v (propertyValues mat))
          \<or> (\<exists>n m e. (n, m, k, e) \<in> set es
               \<and> v = str_replace (CHR 0x5C) (CHR ''/'') (make_asset_map_name c m))"
      by simp
    moreover have "(k, v) \<in> set (AList.update k' ?v (propertyValues mat)) \<Longrightarrow>
        (k, v) \<in> set (propertyValues mat) \<or> (k = k' \<and> v = ?v)"
      by (rule alist_update_set)
    ultimately show ?thesis by (auto simp: x)
  qed
qed

section \<open>The build step\<close>

lemma rename_skip:
  assumes "output_file_name c = [] \<or> output_file_name c = input_file_name c"
  shows "rename_texture_files v c (fs, out) =
           (c\<lparr>output_file_name := input_file_name c\<rparr>, fs,
            out @ (if v then [''    [V] Skipping texture files renaming.''] else []))"
  using assms by (simp add: rename_texture_files_def)

lemma rename_run:
  assumes "output_file_name c \<noteq> []" and "output_file_name c \<noteq> input_file_name c"
  shows "rename_texture_files v c (fs, out) =
           (c, fst (rename_loop c (maps_table c) (fs, [])),
            out @ (if v then [''    [V] Renaming texture files...''] else [])
              @ snd (rename_loop c (maps_table c) (fs, []))
              @ (if v then [''    [V] Texture files renamed.''] else []))"
  using assms
    rename_loop_out[of c "maps_table c" fs "out @ (if v then [''    [V] Renaming texture files...''] else [])"]
  by (simp add: rename_texture_files_def split: prod.splits)

lemma build_parts:
  assumes "rename_texture_files v c (fs, if v then [''[V] Building material file...''] else [])
             = (c1, fs1, out1)"
  shows "build c v fs =
           \<lparr>exit_code = 0,
            files = fs1(material_path c1 \<mapsto>
                      Json (fst (make_material c1 fs1 (maps_table c) (initial_material, [])))),
            printed = out1 @ snd (make_material c1 fs1 (maps_table c) (initial_material, []))
                        @ (if v then [''[V] Material file build process complete.''] else [])\<rparr>"
  using assms make_material_out[of c1 fs1 "maps_table c" initial_material out1]
  by (simp add: build_def Let_def split: prod.splits)

lemma rename_output_name:
  assumes "rename_texture_files v c (fs, out) = (c1, fs1, out1)"
  shows "output_file_name c1 =
           (if output_file_name c = [] \<or> output_file_name c = input_file_name c
            then input_file_name c else output_file_name c)
         \<and> input_file_name c1 = input_file_name c
         \<and> textures_dir_path c1 = textures_dir_path c
         \<and> assets_root_path c1 = assets_root_path c
         \<and> maps_table c1 = maps_table c"
proof (cases "output_file_name c = [] \<or> output_file_name c = input_file_name c")
  case True
  show ?thesis using assms rename_skip[OF True, of v fs out] True by (auto simp: maps_table_def)
next
  case False
  then have a: "output_file_name c \<noteq> []" and b: "output_file_name c \<noteq> input_file_name c" by auto
  show ?thesis using assms rename_run[OF a b, of v fs out] False by auto
qed

text \<open>
  Claim C2.  For an invocation that reaches \<open>build\<close>, the output base name is not empty
  once \<open>rename_texture_files\<close> has run: it is the input base name when no distinct
  output base was given (and then no file is touched), and the given output base
  otherwise.  The material is assembled and written under that resolved name.
\<close>

theorem output_name_resolved:
  assumes "read_options cwd opts = Inr (config, verbose)"
    and "rename_texture_files verbose config
           (fs, if verbose then [''[V] Building material file...''] else []) = (config1, fs1, out1)"
  shows "output_file_name config1 \<noteq> []
     \<and> output_file_name config1 =
         (if output_file_name config = [] \<or> output_file_name config = input_file_name config
          then input_file_name config else output_file_name config)
     \<and> (output_file_name config = [] \<or> output_file_name config = input_file_name config
          \<longrightarrow> fs1 = fs)
     \<and> files (build config verbose fs) =
         fs1(material_path config1 \<mapsto>
               Json (fst (make_material config1 fs1 (maps_table config) (initial_material, []))))"
proof -
  have inp: "input_file_name config \<noteq> []"
    using read_options_build[OF assms(1)] by simp
  have name: "output_file_name config1 =
         (if output_file_name config = [] \<or> output_file_name config = input_file_name config
          then input_file_name config else output_file_name config)"
    using rename_output_name[OF assms(2)] by simp
  have nonempty: "output_file_name config1 \<noteq> []"
    using name inp by (simp split: if_splits)
  have untouched: "output_file_name config = [] \<or> output_file_name config = input_file_name config
          \<longrightarrow> fs1 = fs"
  proof
    assume s: "output_file_name config = [] \<or> output_file_name config = input_file_name config"
    show "fs1 = fs" using assms(2) rename_skip[OF s, of verbose fs] by simp
  qed
  have written: "files (build config verbose fs) =
         fs1(material_path config1 \<mapsto>
               Json (fst (make_material config1 fs1 (maps_table config) (initial_material, []))))"
    using build_parts[OF assms(2)] by simp
  show ?thesis using nonempty name untouched written by (intro conjI)
qed

theorem output_name_resolved_witness:
  "read_options ''/work'' [(''-f'', ''base''), (''--dif'', [])]
     = Inr ((new_BuildConfig ''/work'')\<lparr>input_file_name := ''base'', export_dif := True\<rparr>, False)
   \<and> rename_texture_files False
       ((new_BuildConfig ''/work'')\<lparr>input_file_name := ''base'', export_dif := True\<rparr>) (Map.empty, [])
     = ((new_BuildConfig ''/work'')\<lparr>input_file_name := ''base'', export_dif := True,
                                      output_file_name := ''base''\<rparr>, Map.empty, [])
   \<and> output_file_name ((new_BuildConfig ''/work'')\<lparr>input_file_name := ''base'', export_dif := True,
                                      output_file_name := ''base''\<rparr>) \<noteq> []"
proof -
  let ?c = "(new_BuildConfig ''/work'')\<lparr>input_file_name := ''base'', export_dif := True\<rparr>"
  let ?c1 = "(new_BuildConfig ''/work'')\<lparr>input_file_name := ''base'', export_dif := True,
                                      output_file_name := ''base''\<rparr>"
  have r: "read_options ''/work'' [(''-f'', ''base''), (''--dif'', [])] = Inr (?c, False)"
    by (simp add: read_options_def handle_opt_def new_BuildConfig_def)
  have t: "rename_texture_files False ?c (Map.empty, if False then [''[V] Building material file...''] else [])
             = (?c1, Map.empty, [])"
    by (simp add: rename_texture_files_def new_BuildConfig_def)
  have t': "rename_texture_files False ?c (Map.empty, []) = (?c1, Map.empty, [])"
    using t by simp
  have "output_file_name ?c1 \<noteq> []"
    using output_name_resolved[OF r t] by (rule conjunct1)
  then show ?thesis using r t' by (intro conjI)
qed

text \<open>
  Claim C10.  In a run with a non-empty output base different from the input base, an
  enabled category whose source file \<open>{input_base}_{suffix}.tiff\<close> is missing under the
  textures directory is reported by a line that names \<open>{output_base}_{suffix}.tiff\<close>,
  and that name differs from the name of the file that was looked for.
\<close>

theorem missing_source_reported_under_output_name:
  assumes "output_file_name config \<noteq> []"
    and "output_file_name config \<noteq> input_file_name config"
    and "(name, m, key, True) \<in> set (maps_table config)"
    and "\<not> os_path_exists fs (make_file_map_name config (input_file_name config) m)"
  shows "(''    [E] The '' @ name @ '' Map was enabled, but the file ''
            @ make_map_name (output_file_name config) m
            @ '' do not exists. The file was not renamed.'')
           \<in> set (printed (build config verbose fs))
     \<and> make_map_name (output_file_name config) m \<noteq> make_map_name (input_file_name config) m"
proof -
  let ?out0 = "if verbose then [''[V] Building material file...''] else []"
  let ?loop = "rename_loop config (maps_table config) (fs, [])"
  have missing: "fs (make_file_map_name config (input_file_name config) m) = None"
    using assms(4) by (simp add: os_path_exists_def)
  have diag: "not_renamed_msg name (output_file_name config) m \<in> set (snd ?loop)"
  proof (rule rename_loop_diagnosed)
    show "\<And>n m k e. (n, m, k, e) \<in> set (maps_table config) \<Longrightarrow> m \<in> set map_suffixes"
      by (rule maps_table_suffixes)
    show "distinct (map (\<lambda>x. fst (snd x)) (maps_table config))"
      by (rule maps_table_distinct_suffixes)
    show "(name, m, key, True) \<in> set (maps_table config)" by (rule assms(3))
    show "fs (make_file_map_name config (input_file_name config) m) = None" by (rule missing)
  qed
  obtain c1 fs1 out1 where r: "rename_texture_files verbose config (fs, ?out0) = (c1, fs1, out1)"
    by (cases "rename_texture_files verbose config (fs, ?out0)") auto
  have "set (snd ?loop) \<subseteq> set out1"
    using r rename_run[OF assms(1,2), of verbose fs ?out0] by auto
  then have "not_renamed_msg name (output_file_name config) m \<in> set out1"
    using diag by blast
  then have "not_renamed_msg name (output_file_name config) m \<in> set (printed (build config verbose fs))"
    using build_parts[OF r] by simp
  moreover have "not_renamed_msg name (output_file_name config) m =
      ''    [E] The '' @ name @ '' Map was enabled, but the file ''
            @ make_map_name (output_file_name config) m
            @ '' do not exists. The file was not renamed.''"
    by (simp add: not_renamed_msg_def make_map_name_def)
  moreover have "make_map_name (output_file_name config) m \<noteq> make_map_name (input_file_name config) m"
    using assms(2) by (simp add: make_map_name_def)
  ultimately show ?thesis by simp
qed

theorem missing_source_reported_under_output_name_witness:
  "output_file_name ((new_BuildConfig ''/work'')\<lparr>export_occ := True, input_file_name := ''a'',
                                                 output_file_name := ''b''\<rparr>) \<noteq> []
   \<and> output_file_name ((new_BuildConfig ''/work'')\<lparr>export_occ := True, input_file_name := ''a'',
                                                 output_file_name := ''b''\<rparr>)
       \<noteq> input_file_name ((new_BuildConfig ''/work'')\<lparr>export_occ := True, input_file_name := ''a'',
                                                 output_file_name := ''b''\<rparr>)
   \<and> (''Ambient Occlusion'', ''ao'', ''occlusion.diffuseTextureMap'', True)
       \<in> set (maps_table ((new_BuildConfig ''/work'')\<lparr>export_occ := True, input_file_name := ''a'',
                                                 output_file_name := ''b''\<rparr>))
   \<and> \<not> os_path_exists Map.empty ''/work/a_ao.tiff''
   \<and> ''    [E] The Ambient Occlusion Map was enabled, but the file b_ao.tiff do not exists. The file was not renamed.''
       \<in> set (printed (build ((new_BuildConfig ''/work'')\<lparr>export_occ := True, input_file_name := ''a'',
                                                 output_file_name := ''b''\<rparr>) False Map.empty))"
proof -
  let ?c = "(new_BuildConfig ''/work'')\<lparr>export_occ := True, input_file_name := ''a'',
                                                 output_file_name := ''b''\<rparr>"
  have h1: "output_file_name ?c \<noteq> []" by simp
  have h2: "output_file_name ?c \<noteq> input_file_name ?c" by simp
  have h3: "(''Ambient Occlusion'', ''ao'', ''occlusion.diffuseTextureMap'', True) \<in> set (maps_table ?c)"
    by (simp add: maps_table_def)
  have p: "make_file_map_name ?c (input_file_name ?c) ''ao'' = ''/work/a_ao.tiff''"
    by (simp add: make_file_map_name_def make_map_name_def new_BuildConfig_def os_path_join_def
        suffix_to_prefix)
  have h4': "\<not> os_path_exists Map.empty ''/work/a_ao.tiff''"
    by (simp add: os_path_exists_def)
  have h4: "\<not> os_path_exists Map.empty (make_file_map_name ?c (input_file_name ?c) ''ao'')"
    using h4' p by simp
  have "(''    [E] The '' @ ''Ambient Occlusion'' @ '' Map was enabled, but the file ''
            @ make_map_name (output_file_name ?c) ''ao''
            @ '' do not exists. The file was not renamed.'')
           \<in> set (printed (build ?c False Map.empty))"
    using missing_source_reported_under_output_name[OF h1 h2 h3 h4, of False] by (rule conjunct1)
  then have "''    [E] The Ambient Occlusion Map was enabled, but the file b_ao.tiff do not exists. The file was not renamed.''
       \<in> set (printed (build ?c False Map.empty))"
    by (simp add: make_map_name_def)
  then show ?thesis using h1 h2 h3 h4' by (intro conjI)
qed











lemma maps_table_key_unique:
  assumes "(n, m, k, e) \<in> set (maps_table c)" and "(n', m', k, e') \<in> set (maps_table c)"
  shows "n' = n \<and> m' = m \<and> e' = e"
proof -
  have inj: "inj_on (\<lambda>x. fst (snd (snd x))) (set (maps_table c))"
    using maps_table_distinct_keys[of c] by (simp add: distinct_map)
  have same: "(\<lambda>x. fst (snd (snd x))) (n, m, k, e) = (\<lambda>x. fst (snd (snd x))) (n', m', k, e')"
    by simp
  have "(n, m, k, e) = (n', m', k, e')"
    by (rule inj_onD[OF inj same assms(1) assms(2)])
  then show ?thesis by simp
qed

text \<open>
  Claim C4.  In every run of \<open>build\<close>, for an enabled category whose file
  \<open>{output_base}_{suffix}.tiff\<close> does not exist under the textures directory when the
  material is assembled: the diagnostic is printed, the run ends with exit code 0, and
  the material written has the two constant fields, no entry for the key of that
  category, and the entry of every enabled category whose file does exist.
\<close>

theorem missing_file_omitted:
  assumes "rename_texture_files verbose config
             (fs, if verbose then [''[V] Building material file...''] else []) = (config1, fs1, out1)"
    and "(name, m, key, True) \<in> set (maps_table config)"
    and "\<not> os_path_exists fs1 (make_file_map_name config1 (output_file_name config1) m)"
  shows "exit_code (build config verbose fs) = 0
     \<and> (''    [E] The '' @ name @ '' Map was enabled, but the file ''
            @ make_map_name (output_file_name config1) m
            @ '' do not exists. The file was not added in the material.'')
          \<in> set (printed (build config verbose fs))
     \<and> (\<exists>mat. files (build config verbose fs) (material_path config1) = Some (Json mat)
           \<and> materialType mat = ''Materials/Types/StandardPBR.materialtype''
           \<and> materialTypeVersion mat = 4
           \<and> key \<notin> fst ` set (propertyValues mat)
           \<and> (\<forall>name' m' key'.
                 (name', m', key', True) \<in> set (maps_table config)
                 \<and> os_path_exists fs1 (make_file_map_name config1 (output_file_name config1) m')
                 \<longrightarrow> map_of (propertyValues mat) key'
                       = Some (str_replace (CHR 0x5C) (CHR ''/'')
                                 (os_path_join (assets_root_path config1)
                                    (make_map_name (output_file_name config1) m')))))"
proof -
  let ?mm = "make_material config1 fs1 (maps_table config) (initial_material, [])"
  let ?mat = "fst ?mm"
  have b: "build config verbose fs =
             \<lparr>exit_code = 0, files = fs1(material_path config1 \<mapsto> Json ?mat),
              printed = out1 @ snd ?mm
                          @ (if verbose then [''[V] Material file build process complete.''] else [])\<rparr>"
    by (rule build_parts[OF assms(1)])
  have ex0: "exit_code (build config verbose fs) = 0" using b by simp
  have fM: "files (build config verbose fs) (material_path config1) = Some (Json ?mat)"
    using b by simp
  have "not_added_msg name (output_file_name config1) m \<in> set (snd ?mm)"
    by (rule make_material_diagnosed[OF assms(2,3)])
  then have "not_added_msg name (output_file_name config1) m \<in> set (printed (build config verbose fs))"
    using b by simp
  then have pr: "(''    [E] The '' @ name @ '' Map was enabled, but the file ''
            @ make_map_name (output_file_name config1) m
            @ '' do not exists. The file was not added in the material.'')
          \<in> set (printed (build config verbose fs))"
    by (simp add: not_added_msg_def make_map_name_def)
  have cst: "materialType ?mat = ''Materials/Types/StandardPBR.materialtype''
                \<and> materialTypeVersion ?mat = 4"
    using make_material_constants[of config1 fs1 "maps_table config" initial_material "[]"]
    by (simp add: initial_material_def)
  have "map_of (propertyValues ?mat) key = map_of (propertyValues initial_material) key"
  proof (rule make_material_untouched)
    fix n2 m2 e2 assume a: "(n2, m2, key, e2) \<in> set (maps_table config)"
    have "m2 = m" using maps_table_key_unique[OF assms(2) a] by simp
    then show "\<not> (e2 \<and> os_path_exists fs1 (make_file_map_name config1 (output_file_name config1) m2))"
      using assms(3) by simp
  qed
  then have "map_of (propertyValues ?mat) key = None"
    by (simp add: initial_material_def)
  then have absent: "key \<notin> fst ` set (propertyValues ?mat)"
    by (simp add: map_of_eq_None_iff)
  have others: "\<forall>name' m' key'.
                 (name', m', key', True) \<in> set (maps_table config)
                 \<and> os_path_exists fs1 (make_file_map_name config1 (output_file_name config1) m')
                 \<longrightarrow> map_of (propertyValues ?mat) key'
                       = Some (str_replace (CHR 0x5C) (CHR ''/'')
                                 (os_path_join (assets_root_path config1)
                                    (make_map_name (output_file_name config1) m')))"
  proof (intro allI impI)
    fix name' m' key'
    assume a: "(name', m', key', True) \<in> set (maps_table config)
                 \<and> os_path_exists fs1 (make_file_map_name config1 (output_file_name config1) m')"
    have "map_of (propertyValues ?mat) key'
            = Some (str_replace (CHR 0x5C) (CHR ''/'') (make_asset_map_name config1 m'))"
      by (rule make_material_added[OF maps_table_distinct_keys]) (use a in auto)
    then show "map_of (propertyValues ?mat) key'
                       = Some (str_replace (CHR 0x5C) (CHR ''/'')
                                 (os_path_join (assets_root_path config1)
                                    (make_map_name (output_file_name config1) m')))"
      by (simp add: make_asset_map_name_def)
  qed
  show ?thesis using ex0 pr fM cst absent others by blast
qed

theorem missing_file_omitted_witness:
  "rename_texture_files False
       ((new_BuildConfig ''/work'')\<lparr>export_dif := True, input_file_name := ''base''\<rparr>) (Map.empty, [])
     = ((new_BuildConfig ''/work'')\<lparr>export_dif := True, input_file_name := ''base'',
                                      output_file_name := ''base''\<rparr>, Map.empty, [])
   \<and> (''Diffuse Color'', ''albedo'', ''baseColor.textureMap'', True)
       \<in> set (maps_table ((new_BuildConfig ''/work'')\<lparr>export_dif := True, input_file_name := ''base''\<rparr>))
   \<and> \<not> os_path_exists Map.empty ''/work/base_albedo.tiff''
   \<and> exit_code (build ((new_BuildConfig ''/work'')\<lparr>export_dif := True, input_file_name := ''base''\<rparr>)
                  False Map.empty) = 0
   \<and> ''    [E] The Diffuse Color Map was enabled, but the file base_albedo.tiff do not exists. The file was not added in the material.''
       \<in> set (printed (build ((new_BuildConfig ''/work'')\<lparr>export_dif := True, input_file_name := ''base''\<rparr>)
                          False Map.empty))"
proof -
  let ?c = "(new_BuildConfig ''/work'')\<lparr>export_dif := True, input_file_name := ''base''\<rparr>"
  let ?c1 = "(new_BuildConfig ''/work'')\<lparr>export_dif := True, input_file_name := ''base'',
                                      output_file_name := ''base''\<rparr>"
  have t: "rename_texture_files False ?c (Map.empty, if False then [''[V] Building material file...''] else [])
             = (?c1, Map.empty, [])"
    by (simp add: rename_texture_files_def new_BuildConfig_def)
  have t': "rename_texture_files False ?c (Map.empty, []) = (?c1, Map.empty, [])"
    using t by simp
  have h2: "(''Diffuse Color'', ''albedo'', ''baseColor.textureMap'', True) \<in> set (maps_table ?c)"
    by (simp add: maps_table_def)
  have p: "make_file_map_name ?c1 (output_file_name ?c1) ''albedo'' = ''/work/base_albedo.tiff''"
    by (simp add: make_file_map_name_def make_map_name_def new_BuildConfig_def os_path_join_def
        suffix_to_prefix)
  have h3': "\<not> os_path_exists Map.empty ''/work/base_albedo.tiff''"
    by (simp add: os_path_exists_def)
  have h3: "\<not> os_path_exists Map.empty (make_file_map_name ?c1 (output_file_name ?c1) ''albedo'')"
    using h3' p by simp
  note r = missing_file_omitted[OF t h2 h3]
  have x: "exit_code (build ?c False Map.empty) = 0"
    using r by (rule conjunct1)
  have "(''    [E] The '' @ ''Diffuse Color'' @ '' Map was enabled, but the file ''
            @ make_map_name (output_file_name ?c1) ''albedo''
            @ '' do not exists. The file was not added in the material.'')
          \<in> set (printed (build ?c False Map.empty))"
    using r[THEN conjunct2] by (rule conjunct1)
  then have pr: "''    [E] The Diffuse Color Map was enabled, but the file base_albedo.tiff do not exists. The file was not added in the material.''
       \<in> set (printed (build ?c False Map.empty))"
    by (simp add: make_map_name_def)
  show ?thesis using t' h2 h3' x pr by (intro conjI)
qed

text \<open>
  Claim C1.  With the arguments \<open>-f base --dif --met\<close>, the default textures directory
  (the working directory) and assets root, and the files \<open>base_albedo.tiff\<close> and
  \<open>base_metalness.tiff\<close> present in that directory, the program ends with exit code 0,
  prints nothing, renames nothing, and writes \<open>base.material\<close> in that directory with
  exactly the document of the specification.  In every run of \<open>build\<close>, each value
  stored in \<open>propertyValues\<close> is the path \<open>assets_root/{output_base}_{suffix}.tiff\<close> of
  one of the eight suffixes with every backslash replaced by a slash, so it contains no
  backslash.
\<close>

theorem default_run_material:
  assumes "os_path_exists fs (os_path_join cwd ''base_albedo.tiff'')"
    and "os_path_exists fs (os_path_join cwd ''base_metalness.tiff'')"
  shows "main cwd [''-f'', ''base'', ''--dif'', ''--met''] fs =
           \<lparr>exit_code = 0,
            files = fs(os_path_join cwd ''base.material'' \<mapsto>
                      Json \<lparr>materialType = ''Materials/Types/StandardPBR.materialtype'',
                            materialTypeVersion = 4,
                            propertyValues =
                              [(''baseColor.textureMap'', ''Assets/base_albedo.tiff''),
                               (''metallic.textureMap'', ''Assets/base_metalness.tiff'')]\<rparr>),
            printed = []\<rparr>
     \<and> (rename_texture_files verbose config
           (fs0, if verbose then [''[V] Building material file...''] else []) = (config1, fs1, out1)
        \<and> files (build config verbose fs0) (material_path config1) = Some (Json mat)
        \<and> (k, v) \<in> set (propertyValues mat)
        \<longrightarrow> CHR 0x5C \<notin> set v
            \<and> (\<exists>m \<in> set map_suffixes.
                  v = str_replace (CHR 0x5C) (CHR ''/'')
                        (os_path_join (assets_root_path config1)
                           (output_file_name config1 @ ''_'' @ m @ ''.tiff''))))"
proof -
  let ?c = "(new_BuildConfig cwd)\<lparr>export_dif := True, export_met := True, input_file_name := ''base''\<rparr>"
  let ?c1 = "?c\<lparr>output_file_name := ''base''\<rparr>"
  let ?opts = "[(''-f'', ''base''), (''--dif'', ''''), (''--met'', '''')]"
  let ?doc = "\<lparr>materialType = ''Materials/Types/StandardPBR.materialtype'',
               materialTypeVersion = 4,
               propertyValues =
                 [(''baseColor.textureMap'', ''Assets/base_albedo.tiff''),
                  (''metallic.textureMap'', ''Assets/base_metalness.tiff'')]\<rparr>"
  have g: "getopt [''-f'', ''base'', ''--dif'', ''--met''] shortopts longopts = Inr (?opts, [])"
    by (simp add: getopt_def shortopts_def longopts_def do_longs_def long_has_args_def)
  have r: "read_options cwd ?opts = Inr (?c, False)"
    by (simp add: read_options_def handle_opt_def new_BuildConfig_def)
  have m: "main cwd [''-f'', ''base'', ''--dif'', ''--met''] fs = build ?c False fs"
    using g r by (simp add: main_def run_options_def)
  have skip: "output_file_name ?c = [] \<or> output_file_name ?c = input_file_name ?c"
    by (simp add: new_BuildConfig_def)
  have t: "rename_texture_files False ?c (fs, if False then [''[V] Building material file...''] else [])
             = (?c1, fs, [])"
    using rename_skip[OF skip, of False fs "[]"] by simp
  have a1: "os_path_join ''Assets'' ''base_albedo.tiff'' = ''Assets/base_albedo.tiff''"
    by (simp add: os_path_join_def suffix_to_prefix)
  have a2: "os_path_join ''Assets'' ''base_metalness.tiff'' = ''Assets/base_metalness.tiff''"
    by (simp add: os_path_join_def suffix_to_prefix)
  have mm: "make_material ?c1 fs (maps_table ?c) (initial_material, []) = (?doc, [])"
    using assms
    by (simp add: maps_table_def new_BuildConfig_def initial_material_def make_file_map_name_def
        make_asset_map_name_def make_map_name_def a1 a2 str_replace_def)
  have mp: "material_path ?c1 = os_path_join cwd ''base.material''"
    by (simp add: material_path_def new_BuildConfig_def)
  have b: "build ?c False fs =
             \<lparr>exit_code = 0, files = fs(os_path_join cwd ''base.material'' \<mapsto> Json ?doc),
              printed = []\<rparr>"
    using build_parts[OF t] mm mp by simp
  have first: "main cwd [''-f'', ''base'', ''--dif'', ''--met''] fs =
           \<lparr>exit_code = 0, files = fs(os_path_join cwd ''base.material'' \<mapsto> Json ?doc),
            printed = []\<rparr>"
    using m b by simp
  have second: "CHR 0x5C \<notin> set v
            \<and> (\<exists>m \<in> set map_suffixes.
                  v = str_replace (CHR 0x5C) (CHR ''/'')
                        (os_path_join (assets_root_path config1)
                           (output_file_name config1 @ ''_'' @ m @ ''.tiff'')))"
    if h: "rename_texture_files verbose config
           (fs0, if verbose then [''[V] Building material file...''] else []) = (config1, fs1, out1)
        \<and> files (build config verbose fs0) (material_path config1) = Some (Json mat)
        \<and> (k, v) \<in> set (propertyValues mat)"
  proof -
    let ?mat = "fst (make_material config1 fs1 (maps_table config) (initial_material, []))"
    have "files (build config verbose fs0) (material_path config1) = Some (Json ?mat)"
      using build_parts[OF h[THEN conjunct1]] by simp
    then have "mat = ?mat" using h by simp
    then have "(k, v) \<in> set (propertyValues ?mat)" using h by simp
    then have "(k, v) \<in> set (propertyValues initial_material)
         \<or> (\<exists>n m e. (n, m, k, e) \<in> set (maps_table config)
               \<and> v = str_replace (CHR 0x5C) (CHR ''/'') (make_asset_map_name config1 m))"
      by (rule make_material_values)
    then obtain n m e where e: "(n, m, k, e) \<in> set (maps_table config)"
      and v: "v = str_replace (CHR 0x5C) (CHR ''/'') (make_asset_map_name config1 m)"
      by (auto simp: initial_material_def)
    have suf: "m \<in> set map_suffixes" using e by (rule maps_table_suffixes)
    have noback: "CHR 0x5C \<notin> set v"
      unfolding v by (rule str_replace_absent) simp
    have form: "v = str_replace (CHR 0x5C) (CHR ''/'')
                        (os_path_join (assets_root_path config1)
                           (output_file_name config1 @ ''_'' @ m @ ''.tiff''))"
      using v by (simp add: make_asset_map_name_def make_map_name_def)
    show ?thesis using suf noback form by blast
  qed
  show ?thesis using first second by blast
qed

theorem default_run_material_witness:
  "os_path_exists [''/work/base_albedo.tiff'' \<mapsto> Blob 1, ''/work/base_metalness.tiff'' \<mapsto> Blob 2]
     (os_path_join ''/work'' ''base_albedo.tiff'')
   \<and> os_path_exists [''/work/base_albedo.tiff'' \<mapsto> Blob 1, ''/work/base_metalness.tiff'' \<mapsto> Blob 2]
     (os_path_join ''/work'' ''base_metalness.tiff'')
   \<and> main ''/work'' [''-f'', ''base'', ''--dif'', ''--met'']
        [''/work/base_albedo.tiff'' \<mapsto> Blob 1, ''/work/base_metalness.tiff'' \<mapsto> Blob 2] =
        \<lparr>exit_code = 0,
         files = [''/work/base_albedo.tiff'' \<mapsto> Blob 1, ''/work/base_metalness.tiff'' \<mapsto> Blob 2,
                  ''/work/base.material'' \<mapsto>
                    Json \<lparr>materialType = ''Materials/Types/StandardPBR.materialtype'',
                          materialTypeVersion = 4,
                          propertyValues =
                            [(''baseColor.textureMap'', ''Assets/base_albedo.tiff''),
                             (''metallic.textureMap'', ''Assets/base_metalness.tiff'')]\<rparr>],
         printed = []\<rparr>"
proof -
  let ?fs = "[''/work/base_albedo.tiff'' \<mapsto> Blob 1, ''/work/base_metalness.tiff'' \<mapsto> Blob 2]"
  have j1: "os_path_join ''/work'' ''base_albedo.tiff'' = ''/work/base_albedo.tiff''"
    by (simp add: os_path_join_def suffix_to_prefix)
  have j2: "os_path_join ''/work'' ''base_metalness.tiff'' = ''/work/base_metalness.tiff''"
    by (simp add: os_path_join_def suffix_to_prefix)
  have j3: "os_path_join ''/work'' ''base.material'' = ''/work/base.material''"
    by (simp add: os_path_join_def suffix_to_prefix)
  have h1: "os_path_exists ?fs (os_path_join ''/work'' ''base_albedo.tiff'')"
    unfolding j1 by (simp add: os_path_exists_def)
  have h2: "os_path_exists ?fs (os_path_join ''/work'' ''base_metalness.tiff'')"
    unfolding j2 by (simp add: os_path_exists_def)
  have run: "main ''/work'' [''-f'', ''base'', ''--dif'', ''--met''] ?fs =
        \<lparr>exit_code = 0,
         files = ?fs(os_path_join ''/work'' ''base.material'' \<mapsto>
                    Json \<lparr>materialType = ''Materials/Types/StandardPBR.materialtype'',
                          materialTypeVersion = 4,
                          propertyValues =
                            [(''baseColor.textureMap'', ''Assets/base_albedo.tiff''),
                             (''metallic.textureMap'', ''Assets/base_metalness.tiff'')]\<rparr>),
         printed = []\<rparr>"
    using default_run_material[OF h1 h2] by (rule conjunct1)
  show ?thesis using h1 h2 run unfolding j3 by (intro conjI)
qed

section \<open>The verbosity flag\<close>

lemma handle_opt_verbose: "handle_opt (''-v'', arg) (c, v) = Some (c, True)"
  by (simp add: handle_opt_def)

lemma handle_opt_config:
  "map_option fst (handle_opt (opt, arg) (c, v)) = map_option fst (handle_opt (opt, arg) (c, v'))"
proof (cases "opt \<in> set option_names")
  case False
  then show ?thesis by (simp add: option_names_def handle_opt_def)
next
  case True
  then show ?thesis
    unfolding option_names_def
    apply (simp only: set_simps insert_iff empty_iff)
    apply (elim disjE)
    by (simp_all add: handle_opt_def)
qed

lemma handle_opt_keeps_verbose:
  assumes "opt \<noteq> ''-v''" and "handle_opt (opt, arg) (c, v) = Some (c1, v1)"
  shows "v1 = v"
proof (cases "opt \<in> set option_names")
  case False
  then show ?thesis using assms by (simp add: option_names_def handle_opt_def)
next
  case True
  then show ?thesis using assms
    unfolding option_names_def
    apply (simp only: set_simps insert_iff empty_iff)
    apply (elim disjE)
    by (simp_all add: handle_opt_def)
qed

lemma handle_opts_config:
  "map_option fst (handle_opts opts (c, v))
     = map_option fst (handle_opts (filter (\<lambda>oa. fst oa \<noteq> ''-v'') opts) (c, v'))"
proof (induction opts arbitrary: c v v')
  case Nil
  show ?case by simp
next
  case (Cons oa rest)
  obtain opt arg where oa: "oa = (opt, arg)" by (cases oa)
  show ?case
  proof (cases "opt = ''-v''")
    case True
    have "handle_opts (oa # rest) (c, v) = handle_opts rest (c, True)"
      using True handle_opt_verbose[of arg c v] by (simp add: oa)
    moreover have "filter (\<lambda>oa. fst oa \<noteq> ''-v'') (oa # rest) = filter (\<lambda>oa. fst oa \<noteq> ''-v'') rest"
      using True by (simp add: oa)
    ultimately show ?thesis using Cons.IH[of c True v'] by simp
  next
    case False
    have keep: "filter (\<lambda>oa. fst oa \<noteq> ''-v'') (oa # rest) = oa # filter (\<lambda>oa. fst oa \<noteq> ''-v'') rest"
      using False by (simp add: oa)
    show ?thesis
    proof (cases "handle_opt (opt, arg) (c, v)")
      case None
      then have "handle_opt (opt, arg) (c, v') = None"
        using handle_opt_config[of opt arg c v v'] by simp
      then show ?thesis using None keep by (simp add: oa)
    next
      case (Some cv1)
      obtain c1 v1 where cv1: "cv1 = (c1, v1)" by (cases cv1)
      obtain cv2 where s2: "handle_opt (opt, arg) (c, v') = Some cv2"
        using handle_opt_config[of opt arg c v v'] Some by (cases "handle_opt (opt, arg) (c, v')") auto
      obtain c2 v2 where cv2: "cv2 = (c2, v2)" by (cases cv2)
      have "c2 = c1" using handle_opt_config[of opt arg c v v'] Some s2 cv1 cv2 by simp
      then show ?thesis using Some s2 cv1 cv2 keep Cons.IH[of c1 v1 v2] by (simp add: oa)
    qed
  qed
qed

lemma handle_opts_keeps_verbose:
  assumes "''-v'' \<notin> fst ` set opts" and "handle_opts opts (c, v) = Some (c', v')"
  shows "v' = v"
  using assms
proof (induction opts arbitrary: c v)
  case Nil
  then show ?case by simp
next
  case (Cons oa rest)
  obtain opt arg where oa: "oa = (opt, arg)" by (cases oa)
  from Cons.prems(2) obtain c1 v1 where s: "handle_opt (opt, arg) (c, v) = Some (c1, v1)"
    and r: "handle_opts rest (c1, v1) = Some (c', v')"
    by (auto simp: oa split: option.splits)
  have "opt \<noteq> ''-v''" using Cons.prems(1) by (auto simp: oa)
  then have "v1 = v" using s by (rule handle_opt_keeps_verbose)
  moreover have "''-v'' \<notin> fst ` set rest" using Cons.prems(1) by auto
  ultimately show ?case using Cons.IH[of c1 v1] r by simp
qed

lemma not_renamed_msg_plain: "\<not> is_verbose_line (not_renamed_msg n b m)"
  by (simp add: is_verbose_line_def not_renamed_msg_def)

lemma not_added_msg_plain: "\<not> is_verbose_line (not_added_msg n b m)"
  by (simp add: is_verbose_line_def not_added_msg_def)

lemma rename_loop_plain:
  "l \<in> set (snd (rename_loop c es (fs, out))) \<Longrightarrow> l \<in> set out \<or> \<not> is_verbose_line l"
proof (induction es arbitrary: fs out)
  case Nil
  then show ?case by simp
next
  case (Cons x es)
  obtain n m k e where x: "x = (n, m, k, e)" by (cases x)
  show ?case
  proof (cases "e \<and> \<not> os_path_exists fs (make_file_map_name c (input_file_name c) m)")
    case True
    then have "l \<in> set (snd (rename_loop c es (fs, out @ [not_renamed_msg n (output_file_name c) m])))"
      using Cons.prems by (simp add: x)
    from Cons.IH[OF this] show ?thesis using not_renamed_msg_plain by auto
  next
    case False
    then have "l \<in> set (snd (rename_loop c es (fs, out)))
        \<or> l \<in> set (snd (rename_loop c es
              (os_rename (make_file_map_name c (input_file_name c) m)
                 (make_file_map_name c (output_file_name c) m) fs, out)))"
      using Cons.prems by (auto simp: x split: if_splits)
    then show ?thesis using Cons.IH by blast
  qed
qed

lemma make_material_plain:
  "l \<in> set (snd (make_material c fs es (mat, out))) \<Longrightarrow> l \<in> set out \<or> \<not> is_verbose_line l"
proof (induction es arbitrary: mat out)
  case Nil
  then show ?case by simp
next
  case (Cons x es)
  obtain n m k e where x: "x = (n, m, k, e)" by (cases x)
  show ?case
  proof (cases "e \<and> \<not> os_path_exists fs (make_file_map_name c (output_file_name c) m)")
    case True
    then have "l \<in> set (snd (make_material c fs es (mat, out @ [not_added_msg n (output_file_name c) m])))"
      using Cons.prems by (simp add: x)
    from Cons.IH[OF this] show ?thesis using not_added_msg_plain by auto
  next
    case False
    then have "l \<in> set (snd (make_material c fs es (mat, out)))
        \<or> l \<in> set (snd (make_material c fs es
              (mat\<lparr>propertyValues :=
                     AList.update k (str_replace (CHR 0x5C) (CHR ''/'') (make_asset_map_name c m))
                       (propertyValues mat)\<rparr>, out)))"
      using Cons.prems by (auto simp: x split: if_splits)
    then show ?thesis using Cons.IH by blast
  qed
qed

lemma filter_plain:
  assumes "\<And>l. l \<in> set xs \<Longrightarrow> \<not> is_verbose_line l"
  shows "filter (\<lambda>l. \<not> is_verbose_line l) xs = xs"
  using assms by (simp add: filter_id_conv)

lemma rename_loop_filter:
  "filter (\<lambda>l. \<not> is_verbose_line l) (snd (rename_loop c es (fs, []))) = snd (rename_loop c es (fs, []))"
proof (rule filter_plain)
  fix l assume "l \<in> set (snd (rename_loop c es (fs, [])))"
  then show "\<not> is_verbose_line l" using rename_loop_plain[of l c es fs "[]"] by simp
qed

lemma make_material_filter:
  "filter (\<lambda>l. \<not> is_verbose_line l) (snd (make_material c fs es (mat, [])))
     = snd (make_material c fs es (mat, []))"
proof (rule filter_plain)
  fix l assume "l \<in> set (snd (make_material c fs es (mat, [])))"
  then show "\<not> is_verbose_line l" using make_material_plain[of l c fs es mat "[]"] by simp
qed

lemma verbose_lines:
  "is_verbose_line ''[V] Building material file...''"
  "is_verbose_line ''    [V] Skipping texture files renaming.''"
  "is_verbose_line ''    [V] Renaming texture files...''"
  "is_verbose_line ''    [V] Texture files renamed.''"
  "is_verbose_line ''[V] Material file build process complete.''"
  by (simp_all add: is_verbose_line_def)

lemma build_verbose:
  "exit_code (build c v fs) = exit_code (build c False fs)
   \<and> files (build c v fs) = files (build c False fs)
   \<and> filter (\<lambda>l. \<not> is_verbose_line l) (printed (build c v fs)) = printed (build c False fs)"
proof (cases "output_file_name c = [] \<or> output_file_name c = input_file_name c")
  case True
  let ?c1 = "c\<lparr>output_file_name := input_file_name c\<rparr>"
  let ?mm = "make_material ?c1 fs (maps_table c) (initial_material, [])"
  have r: "rename_texture_files u c (fs, if u then [''[V] Building material file...''] else [])
             = (?c1, fs, (if u then [''[V] Building material file...''] else [])
                          @ (if u then [''    [V] Skipping texture files renaming.''] else []))" for u
    by (rule rename_skip[OF True])
  have b: "build c u fs =
             \<lparr>exit_code = 0, files = fs(material_path ?c1 \<mapsto> Json (fst ?mm)),
              printed = ((if u then [''[V] Building material file...''] else [])
                          @ (if u then [''    [V] Skipping texture files renaming.''] else []))
                        @ snd ?mm
                        @ (if u then [''[V] Material file build process complete.''] else [])\<rparr>" for u
    by (rule build_parts[OF r])
  show ?thesis
    using b[of v] b[of False] make_material_filter[of ?c1 fs "maps_table c" initial_material]
    by (cases v) (simp_all add: verbose_lines)
next
  case False
  then have a1: "output_file_name c \<noteq> []" and a2: "output_file_name c \<noteq> input_file_name c" by auto
  let ?loop = "rename_loop c (maps_table c) (fs, [])"
  let ?mm = "make_material c (fst ?loop) (maps_table c) (initial_material, [])"
  have r: "rename_texture_files u c (fs, if u then [''[V] Building material file...''] else [])
             = (c, fst ?loop, (if u then [''[V] Building material file...''] else [])
                          @ (if u then [''    [V] Renaming texture files...''] else [])
                          @ snd ?loop
                          @ (if u then [''    [V] Texture files renamed.''] else []))" for u
    by (rule rename_run[OF a1 a2])
  have b: "build c u fs =
             \<lparr>exit_code = 0, files = (fst ?loop)(material_path c \<mapsto> Json (fst ?mm)),
              printed = ((if u then [''[V] Building material file...''] else [])
                          @ (if u then [''    [V] Renaming texture files...''] else [])
                          @ snd ?loop
                          @ (if u then [''    [V] Texture files renamed.''] else []))
                        @ snd ?mm
                        @ (if u then [''[V] Material file build process complete.''] else [])\<rparr>" for u
    by (rule build_parts[OF r])
  show ?thesis
    using b[of v] b[of False] make_material_filter[of c "fst ?loop" "maps_table c" initial_material]
      rename_loop_filter[of c "maps_table c" fs]
    by (cases v) (simp_all add: verbose_lines)
qed

lemma run_options_verbose:
  assumes "filter (\<lambda>oa. fst oa \<noteq> ''-v'') opts \<noteq> []"
  shows "exit_code (run_options cwd opts fs)
           = exit_code (run_options cwd (filter (\<lambda>oa. fst oa \<noteq> ''-v'') opts) fs)
   \<and> files (run_options cwd opts fs)
           = files (run_options cwd (filter (\<lambda>oa. fst oa \<noteq> ''-v'') opts) fs)
   \<and> filter (\<lambda>l. \<not> is_verbose_line l) (printed (run_options cwd opts fs))
           = printed (run_options cwd (filter (\<lambda>oa. fst oa \<noteq> ''-v'') opts) fs)"
proof -
  let ?opts' = "filter (\<lambda>oa. fst oa \<noteq> ''-v'') opts"
  let ?init = "(new_BuildConfig cwd, False)"
  have ne: "opts \<noteq> []" using assms by auto
  have nov: "''-v'' \<notin> fst ` set ?opts'" by auto
  have cfg: "map_option fst (handle_opts opts ?init) = map_option fst (handle_opts ?opts' ?init)"
    by (rule handle_opts_config)
  show ?thesis
  proof (cases "handle_opts opts ?init")
    case None
    then have n': "handle_opts ?opts' ?init = None" using cfg by simp
    have "run_options cwd opts fs = \<lparr>exit_code = 0, files = fs, printed = print_help False\<rparr>"
      using None ne by (simp add: run_options_def read_options_def)
    moreover have "run_options cwd ?opts' fs = \<lparr>exit_code = 0, files = fs, printed = print_help False\<rparr>"
      using n' assms by (simp add: run_options_def read_options_def)
    ultimately show ?thesis by (simp add: print_help_def is_verbose_line_def)
  next
    case (Some cv)
    obtain c v where cv: "cv = (c, v)" by (cases cv)
    obtain cv' where s': "handle_opts ?opts' ?init = Some cv'"
      using cfg Some by (cases "handle_opts ?opts' ?init") auto
    obtain c' v' where cv': "cv' = (c', v')" by (cases cv')
    have same: "c' = c" using cfg Some s' cv cv' by simp
    have quiet: "v' = False"
      using handle_opts_keeps_verbose[OF nov, of "new_BuildConfig cwd" False c' v'] s' cv' by simp
    show ?thesis
    proof (cases "input_file_name c = []")
      case True
      have "run_options cwd opts fs = \<lparr>exit_code = 1, files = fs, printed = print_error\<rparr>"
        using Some cv ne True by (simp add: run_options_def read_options_def)
      moreover have "run_options cwd ?opts' fs = \<lparr>exit_code = 1, files = fs, printed = print_error\<rparr>"
        using s' cv' same assms True by (simp add: run_options_def read_options_def)
      ultimately show ?thesis by (simp add: print_error_def print_help_def is_verbose_line_def)
    next
      case False
      have "run_options cwd opts fs = build c v fs"
        using Some cv ne False by (simp add: run_options_def read_options_def)
      moreover have "run_options cwd ?opts' fs = build c False fs"
        using s' cv' same quiet assms False by (simp add: run_options_def read_options_def)
      ultimately show ?thesis using build_verbose[of c v fs] by simp
    qed
  qed
qed
text \<open>
  Claim C9, as stated, fails when \<open>-v\<close> is the only option.  Without any option the
  program prints the help and exits with code 0 (\<open>len(opts) == 0\<close>); with \<open>-v\<close> alone the
  option list is not empty, the loop only sets the verbosity, the input base name is
  still empty, and the program prints the error message and exits with code 1.
\<close>

theorem verbose_counterexample:
  "getopt [] shortopts longopts = Inr ([], [])
   \<and> getopt [''-v''] shortopts longopts = Inr ([(''-v'', '''')], [])
   \<and> main ''/work'' [] Map.empty
       = \<lparr>exit_code = 0, files = Map.empty, printed = [''O3DE Material Generator for'']\<rparr>
   \<and> main ''/work'' [''-v''] Map.empty
       = \<lparr>exit_code = 1, files = Map.empty,
          printed = [''Invalid arguments passed to the script.\<newline>'']\<rparr>"
proof -
  have g0: "getopt [] shortopts longopts = Inr ([], [])"
    by (simp add: getopt_def)
  have g1: "getopt [''-v''] shortopts longopts = Inr ([(''-v'', '''')], [])"
    by (simp add: getopt_def shortopts_def)
  have m0: "main ''/work'' [] Map.empty
       = \<lparr>exit_code = 0, files = Map.empty, printed = [''O3DE Material Generator for'']\<rparr>"
    using g0 by (simp add: main_def run_options_def read_options_def print_help_def)
  have m1: "main ''/work'' [''-v''] Map.empty
       = \<lparr>exit_code = 1, files = Map.empty,
          printed = [''Invalid arguments passed to the script.\<newline>'']\<rparr>"
    using g1
    by (simp add: main_def run_options_def read_options_def handle_opt_def new_BuildConfig_def
        print_error_def print_help_def)
  show ?thesis using g0 g1 m0 m1 by (intro conjI)
qed

text \<open>
  Claim C9, amended.  Take two argument vectors that both parse and whose parsed
  option lists differ only in that the second has no \<open>-v\<close>, and let there be at least
  one option other than \<open>-v\<close>.  Then on the same file system the two runs end with the
  same exit code and the same files (the same renames, the same material at the same
  path), and what the second run prints is what the first prints without its
  \<open>[V]\<close> lines.
\<close>

theorem verbose_only_adds_log_lines:
  assumes "getopt argv shortopts longopts = Inr (opts, args)"
    and "getopt argv' shortopts longopts = Inr (filter (\<lambda>oa. fst oa \<noteq> ''-v'') opts, args')"
    and "filter (\<lambda>oa. fst oa \<noteq> ''-v'') opts \<noteq> []"
  shows "exit_code (main cwd argv fs) = exit_code (main cwd argv' fs)
     \<and> files (main cwd argv fs) = files (main cwd argv' fs)
     \<and> filter (\<lambda>l. \<not> is_verbose_line l) (printed (main cwd argv fs))
         = printed (main cwd argv' fs)"
proof -
  have m: "main cwd argv fs = run_options cwd opts fs"
    using assms(1) by (simp add: main_def)
  have m': "main cwd argv' fs = run_options cwd (filter (\<lambda>oa. fst oa \<noteq> ''-v'') opts) fs"
    using assms(2) by (simp add: main_def)
  show ?thesis unfolding m m' by (rule run_options_verbose[OF assms(3)])
qed

theorem verbose_only_adds_log_lines_witness:
  "getopt [''-v'', ''-f'', ''base'', ''--dif''] shortopts longopts
     = Inr ([(''-v'', ''''), (''-f'', ''base''), (''--dif'', '''')], [])
   \<and> getopt [''-f'', ''base'', ''--dif''] shortopts longopts
     = Inr ([(''-f'', ''base''), (''--dif'', '''')], [])
   \<and> filter (\<lambda>oa. fst oa \<noteq> ''-v'') [(''-v'', ''''), (''-f'', ''base''), (''--dif'', '''')]
     = [(''-f'', ''base''), (''--dif'', '''')]
   \<and> exit_code (main ''/work'' [''-v'', ''-f'', ''base'', ''--dif''] Map.empty)
     = exit_code (main ''/work'' [''-f'', ''base'', ''--dif''] Map.empty)
   \<and> files (main ''/work'' [''-v'', ''-f'', ''base'', ''--dif''] Map.empty)
     = files (main ''/work'' [''-f'', ''base'', ''--dif''] Map.empty)
   \<and> filter (\<lambda>l. \<not> is_verbose_line l)
        (printed (main ''/work'' [''-v'', ''-f'', ''base'', ''--dif''] Map.empty))
     = printed (main ''/work'' [''-f'', ''base'', ''--dif''] Map.empty)"
proof -
  let ?opts = "[(''-v'', ''''), (''-f'', ''base''), (''--dif'', '''')] :: opts"
  have f: "filter (\<lambda>oa. fst oa \<noteq> ''-v'') ?opts = [(''-f'', ''base''), (''--dif'', '''')]"
    by simp
  have g1: "getopt [''-v'', ''-f'', ''base'', ''--dif''] shortopts longopts = Inr (?opts, [])"
    by (simp add: getopt_def shortopts_def longopts_def do_longs_def long_has_args_def)
  have g2': "getopt [''-f'', ''base'', ''--dif''] shortopts longopts
              = Inr ([(''-f'', ''base''), (''--dif'', '''')], [])"
    by (simp add: getopt_def shortopts_def longopts_def do_longs_def long_has_args_def)
  have g2: "getopt [''-f'', ''base'', ''--dif''] shortopts longopts
              = Inr (filter (\<lambda>oa. fst oa \<noteq> ''-v'') ?opts, [])"
    unfolding f by (rule g2')
  have ne: "filter (\<lambda>oa. fst oa \<noteq> ''-v'') ?opts \<noteq> []"
    unfolding f by simp
  note r = verbose_only_adds_log_lines[OF g1 g2 ne, of "''/work''" Map.empty]
  have x: "exit_code (main ''/work'' [''-v'', ''-f'', ''base'', ''--dif''] Map.empty)
             = exit_code (main ''/work'' [''-f'', ''base'', ''--dif''] Map.empty)"
    using r by (rule conjunct1)
  have y: "files (main ''/work'' [''-v'', ''-f'', ''base'', ''--dif''] Map.empty)
             = files (main ''/work'' [''-f'', ''base'', ''--dif''] Map.empty)"
    using r[THEN conjunct2] by (rule conjunct1)
  have z: "filter (\<lambda>l. \<not> is_verbose_line l)
             (printed (main ''/work'' [''-v'', ''-f'', ''base'', ''--dif''] Map.empty))
             = printed (main ''/work'' [''-f'', ''base'', ''--dif''] Map.empty)"
    using r[THEN conjunct2] by (rule conjunct2)
  show ?thesis using g1 g2' f x y z by (intro conjI)
qed

end
